theory Spec2Isabelle
  imports Main
begin

section \<open>JavaScript values\<close>

text \<open>
  The values that travel through the engine as packet data, callback arguments and error
  codes. Numbers are modelled as integers (fractions and NaN do not occur in the code
  paths below); \<open>JBuf\<close> is a Buffer, which like every object is truthy.
\<close>

datatype jsval = JUndefined | JNull | JBool bool | JNum int | JStr string | JBuf "nat list"

fun truthy :: "jsval \<Rightarrow> bool" where
  "truthy JUndefined = False"
| "truthy JNull = False"
| "truthy (JBool b) = b"
| "truthy (JNum n) = (n \<noteq> 0)"
| "truthy (JStr s) = (s \<noteq> [])"
| "truthy (JBuf bs) = True"

text \<open>A callback argument: a function (identified by a number) or some other truthy value.\<close>

datatype cbv = Fn nat | NonFn nat

text \<open>
  The \<open>options\<close> argument of \<open>send\<close>/\<open>sendPacket\<close>: absent (or falsy), an object whose
  \<open>compress\<close> property has the given value (\<open>JUndefined\<close> when the property is missing),
  or a function, in which case it is taken as the callback.
\<close>

datatype optarg = OptNone | OptObj jsval | OptFn cbv

section \<open>Packets\<close>

text \<open>
  A packet is \<open>{type, data?, options?}\<close>. \<open>pdata = None\<close> means the object has no
  \<open>data\<close> property; \<open>poptions = Some c\<close> is the options object \<open>{compress: c}\<close>.
\<close>

record packet =
  ptype :: string
  pdata :: "jsval option"
  poptions :: "bool option"

definition pong_probe :: packet where
  "pong_probe = \<lparr>ptype = ''pong'', pdata = Some (JStr ''probe''), poptions = None\<rparr>"

definition noop_packet :: packet where
  "noop_packet = \<lparr>ptype = ''noop'', pdata = None, poptions = None\<rparr>"

section \<open>Transports (lib/transport.js, lib/transports/websocket.js)\<close>

datatype tkind = Polling | Websocket

fun name_of :: "tkind \<Rightarrow> string" where
  "name_of Polling = ''polling''"
| "name_of Websocket = ''websocket''"

text \<open>
  Modelled from the spec: the polling transport (lib/transports/polling.js) is not among
  the sources. Its \<open>supportsFraming\<close> is false (section 3, Transport); the websocket getter
  of lib/transports/websocket.js returns true.
\<close>

fun supportsFraming :: "tkind \<Rightarrow> bool" where
  "supportsFraming Websocket = True"
| "supportsFraming Polling = False"

datatype tstate = TOpen | TClosing | TClosed

text \<open>The function handed to \<open>transport.close\<close>: none (noop) or the session's forced close.\<close>

datatype closecb = CbNoop | CbForcedClose

text \<open>
  \<open>tid\<close> identifies the object. \<open>attached\<close> says whether the session's listeners
  (error, packet, drain, close and the send-callback drain handler) are registered on it.
  \<open>sentBatches\<close> records the argument of every \<open>send\<close> call. \<open>pollingClosesNow\<close> is the
  one thing the absent polling transport decides: whether its \<open>doClose\<close> runs the
  callback before returning. \<open>pendingClose\<close> keeps callbacks that \<open>doClose\<close> took but
  has not run yet.
\<close>

record transport =
  tid :: nat
  kind :: tkind
  t_readyState :: tstate
  discarded :: bool
  writable :: bool
  tsid :: "string option"
  attached :: bool
  errorSilenced :: bool
  sentBatches :: "packet list list"
  pollingClosesNow :: bool
  pendingClose :: "closecb list"

definition discard :: "transport \<Rightarrow> transport" where
  "discard t = t\<lparr>discarded := True\<rparr>"

text \<open>
  \<open>send\<close>: the websocket transport writes each packet and sets \<open>writable\<close> to false for
  each one, so an empty batch leaves the flag alone. Modelled from the spec for polling
  (section 4.2: a send on a writable polling transport writes the batch and releases the
  parked GET, so the transport is not writable until the next poll).
\<close>

definition transport_send :: "transport \<Rightarrow> packet list \<Rightarrow> transport" where
  "transport_send t pkts =
     t\<lparr>sentBatches := sentBatches t @ [pkts],
       writable := (case kind t of
                      Websocket \<Rightarrow> (if pkts = [] then writable t else False)
                    | Polling \<Rightarrow> False)\<rparr>"

definition doClose_sync :: "transport \<Rightarrow> bool" where
  "doClose_sync t = (case kind t of Websocket \<Rightarrow> True | Polling \<Rightarrow> pollingClosesNow t)"

text \<open>
  \<open>Transport.close(fn)\<close>: nothing when already closing or closed; otherwise the state
  becomes closing and \<open>doClose\<close> gets the callback. The result says whether the callback
  ran before \<open>close\<close> returned.
\<close>

definition transport_close :: "transport \<Rightarrow> closecb \<Rightarrow> transport \<times> bool" where
  "transport_close t cb =
     (if t_readyState t = TClosed \<or> t_readyState t = TClosing then (t, False)
      else let t' = t\<lparr>t_readyState := TClosing\<rparr>
           in if doClose_sync t then (t', True)
              else (t'\<lparr>pendingClose := pendingClose t @ [cb]\<rparr>, False))"

section \<open>Sessions (lib/socket.js)\<close>

datatype rstate = Opening | Open | Closing | Closed

datatype event =
    EvOpen
  | EvPacket packet
  | EvHeartbeat
  | EvData jsval
  | EvMessage jsval
  | EvPacketCreate packet
  | EvFlush "packet list"
  | EvDrain
  | EvUpgrading nat
  | EvUpgrade nat
  | EvClose string
  | SrvFlush "packet list"
  | SrvDrain

text \<open>An entry of \<open>sentCallbackFn\<close>: one callback, or an array of callbacks.\<close>

datatype sentcb = Single cbv | Group "cbv list"

record server_opts =
  pingTimeout :: int
  pingInterval :: int
  upgradeTimeout :: int
  transports :: "string list"
  allowUpgrades :: bool
  initialPacket :: jsval

datatype timer = PingInterval | PingTimeout | UpgradeTimeout | CheckInterval

datatype timer_op = Armed timer int | Cleared timer

text \<open>
  The session object. A timer field is \<open>Some d\<close> while a timer with delay (or period)
  \<open>d\<close> is armed; \<open>timerOps\<close> logs every \<open>setTimeout\<close>/\<open>setInterval\<close> and
  \<open>clearTimeout\<close>/\<open>clearInterval\<close> call in order. \<open>candidate\<close> is the transport
  being probed while the listeners of \<open>maybeUpgrade\<close> are registered; \<open>retired\<close>
  collects transports the session no longer refers to. \<open>closeOnDrain\<close> holds the
  \<open>discard\<close> arguments of the pending \<open>once("drain", closeTransport)\<close> listeners,
  \<open>wbClearPending\<close> the \<open>process.nextTick\<close> job of \<open>onClose\<close>. \<open>emitted\<close> is the
  sequence of events emitted on the session and, for \<open>SrvFlush\<close>/\<open>SrvDrain\<close>, on the
  server; \<open>invoked\<close> the send callbacks called. Application listeners only observe.
\<close>

record socket =
  sid :: string
  opts :: server_opts
  readyState :: rstate
  upgrading :: bool
  upgraded :: bool
  writeBuffer :: "packet list"
  packetsFn :: "cbv list"
  sentCallbackFn :: "sentcb list"
  transport :: transport
  candidate :: "transport option"
  retired :: "transport list"
  pingIntervalTimer :: "int option"
  pingTimeoutTimer :: "int option"
  upgradeTimeoutTimer :: "int option"
  checkIntervalTimer :: "int option"
  timerOps :: "timer_op list"
  closeOnDrain :: "bool list"
  wbClearPending :: bool
  emitted :: "event list"
  invoked :: "nat list"

definition emit :: "event \<Rightarrow> socket \<Rightarrow> socket" where
  "emit e s = s\<lparr>emitted := emitted s @ [e]\<rparr>"

definition set_timer :: "timer \<Rightarrow> int option \<Rightarrow> socket \<Rightarrow> socket" where
  "set_timer T v s =
     (case T of
        PingInterval \<Rightarrow> s\<lparr>pingIntervalTimer := v\<rparr>
      | PingTimeout \<Rightarrow> s\<lparr>pingTimeoutTimer := v\<rparr>
      | UpgradeTimeout \<Rightarrow> s\<lparr>upgradeTimeoutTimer := v\<rparr>
      | CheckInterval \<Rightarrow> s\<lparr>checkIntervalTimer := v\<rparr>)"

text \<open>\<open>setTimeout\<close>/\<open>setInterval\<close> stored in the timer's field, and \<open>clearTimeout\<close>/\<open>clearInterval\<close>.\<close>

definition arm :: "timer \<Rightarrow> int \<Rightarrow> socket \<Rightarrow> socket" where
  "arm T d s = (set_timer T (Some d) s)\<lparr>timerOps := timerOps s @ [Armed T d]\<rparr>"

definition disarm :: "timer \<Rightarrow> socket \<Rightarrow> socket" where
  "disarm T s = (set_timer T None s)\<lparr>timerOps := timerOps s @ [Cleared T]\<rparr>"

text \<open>
  \<open>clearTransport\<close>: runs the cleanup functions (the listeners come off the transport),
  adds the error silencer, closes the transport and clears the ping-timeout timer.
\<close>

definition clearTransport :: "socket \<Rightarrow> socket" where
  "clearTransport s =
     disarm PingTimeout
       (s\<lparr>transport :=
           fst (transport_close ((transport s)\<lparr>attached := False, errorSilenced := True\<rparr>) CbNoop)\<rparr>)"

text \<open>
  \<open>setTransport\<close>: the session's listeners go on the given transport, which becomes the
  session's transport; the object referred to before stays around in \<open>retired\<close>.
\<close>

definition setTransport :: "transport \<Rightarrow> socket \<Rightarrow> socket" where
  "setTransport t s =
     s\<lparr>retired := retired s @ [transport s], transport := t\<lparr>attached := True\<rparr>\<rparr>"

text \<open>The local function \<open>cleanup\<close> of \<open>maybeUpgrade\<close>.\<close>

definition cleanup :: "socket \<Rightarrow> socket" where
  "cleanup s =
     (disarm UpgradeTimeout (disarm CheckInterval (s\<lparr>upgrading := False\<rparr>)))\<lparr>candidate := None\<rparr>"

text \<open>
  The local \<open>onError\<close> of \<open>maybeUpgrade\<close> (also reached through \<open>onTransportClose\<close> and
  \<open>onClose\<close>): clean up and close the candidate. It runs only while its listeners are
  registered.
\<close>

definition upgrade_onError :: "socket \<Rightarrow> socket" where
  "upgrade_onError s =
     (case candidate s of
        None \<Rightarrow> s
      | Some t \<Rightarrow> (let s1 = cleanup s
                  in s1\<lparr>retired := retired s1 @ [fst (transport_close t CbNoop)]\<rparr>))"

definition onClose :: "string \<Rightarrow> socket \<Rightarrow> socket" where
  "onClose reason s =
     (if readyState s \<noteq> Closed then
        (let s1 = s\<lparr>readyState := Closed\<rparr>;
             s2 = disarm UpgradeTimeout
                    (disarm CheckInterval (disarm PingTimeout (disarm PingInterval s1)));
             s3 = s2\<lparr>wbClearPending := True, packetsFn := [], sentCallbackFn := []\<rparr>
         in upgrade_onError (emit (EvClose reason) (clearTransport s3)))
      else s)"

text \<open>The \<open>process.nextTick\<close> job queued by \<open>onClose\<close>.\<close>

definition nextTick :: "socket \<Rightarrow> socket" where
  "nextTick s = (if wbClearPending s then s\<lparr>writeBuffer := [], wbClearPending := False\<rparr> else s)"

definition closeTransport :: "bool \<Rightarrow> socket \<Rightarrow> socket" where
  "closeTransport d s =
     (let s1 = (if d then s\<lparr>transport := discard (transport s)\<rparr> else s);
          r = transport_close (transport s1) CbForcedClose;
          s2 = s1\<lparr>transport := fst r\<rparr>
      in if snd r then onClose ''forced close'' s2 else s2)"

text \<open>
  Emitting \<open>drain\<close> on the session: the event is observed, the pending
  \<open>once("drain", closeTransport)\<close> listeners run and are gone, then the server emits.
\<close>

definition emit_drain :: "socket \<Rightarrow> socket" where
  "emit_drain s =
     emit SrvDrain
       (fold closeTransport (closeOnDrain s) ((emit EvDrain s)\<lparr>closeOnDrain := []\<rparr>))"

definition flush_fires :: "socket \<Rightarrow> bool" where
  "flush_fires s \<longleftrightarrow> readyState s \<noteq> Closed \<and> writable (transport s) \<and> writeBuffer s \<noteq> []"

definition sent_entries :: "tkind \<Rightarrow> cbv list \<Rightarrow> sentcb list" where
  "sent_entries k fns = (if \<not> supportsFraming k then [Group fns] else map Single fns)"

text \<open>The body of \<open>flush\<close> up to and including \<open>transport.send(wbuf)\<close>.\<close>

definition flush_move :: "socket \<Rightarrow> socket" where
  "flush_move s =
     (let s1 = emit (SrvFlush (writeBuffer s)) (emit (EvFlush (writeBuffer s)) s);
          wbuf = writeBuffer s1
      in s1\<lparr>writeBuffer := [],
            sentCallbackFn := sentCallbackFn s1 @ sent_entries (kind (transport s1)) (packetsFn s1),
            packetsFn := [],
            transport := transport_send (transport s1) wbuf\<rparr>)"

definition flush :: "socket \<Rightarrow> socket" where
  "flush s = (if flush_fires s then emit_drain (flush_move s) else s)"

text \<open>
  The argument shuffle at the head of \<open>sendPacket\<close>: a function in the options position
  is the callback, and \<open>options.compress\<close> becomes \<open>false !== options.compress\<close>.
\<close>

definition callback_of :: "optarg \<Rightarrow> cbv option \<Rightarrow> cbv option" where
  "callback_of options callback = (case options of OptFn f \<Rightarrow> Some f | _ \<Rightarrow> callback)"

definition compress_of :: "optarg \<Rightarrow> bool" where
  "compress_of options = (case options of OptObj c \<Rightarrow> c \<noteq> JBool False | _ \<Rightarrow> True)"

text \<open>The packet object built by \<open>sendPacket\<close>: \<open>data\<close> is set only under \<open>if (data)\<close>.\<close>

definition mk_packet :: "string \<Rightarrow> jsval \<Rightarrow> bool \<Rightarrow> packet" where
  "mk_packet type data compress =
     (let p = \<lparr>ptype = type, pdata = None, poptions = Some compress\<rparr>
      in if truthy data then p\<lparr>pdata := Some data\<rparr> else p)"

text \<open>
  The accepting branch of \<open>sendPacket\<close> before its final \<open>flush\<close>: emit \<open>packetCreate\<close>,
  push the packet, push the callback if there is one.
\<close>

definition enqueue :: "packet \<Rightarrow> cbv option \<Rightarrow> socket \<Rightarrow> socket" where
  "enqueue p callback s =
     (let s1 = emit (EvPacketCreate p) s;
          s2 = s1\<lparr>writeBuffer := writeBuffer s1 @ [p]\<rparr>
      in case callback of
           Some f \<Rightarrow> s2\<lparr>packetsFn := packetsFn s2 @ [f]\<rparr>
         | None \<Rightarrow> s2)"

definition sendPacket :: "string \<Rightarrow> jsval \<Rightarrow> optarg \<Rightarrow> cbv option \<Rightarrow> socket \<Rightarrow> socket" where
  "sendPacket type data options callback s =
     (if readyState s \<noteq> Closing \<and> readyState s \<noteq> Closed then
        flush (enqueue (mk_packet type data (compress_of options))
                       (callback_of options callback) s)
      else s)"

datatype retval = RetThis | RetUndefined

definition send :: "jsval \<Rightarrow> optarg \<Rightarrow> cbv option \<Rightarrow> socket \<Rightarrow> retval \<times> socket" where
  "send data options callback s = (RetThis, sendPacket ''message'' data options callback s)"

subsection \<open>Heartbeat\<close>

definition schedulePing :: "socket \<Rightarrow> socket" where
  "schedulePing s = arm PingInterval (pingInterval (opts s)) (disarm PingInterval s)"

definition resetPingTimeout :: "int \<Rightarrow> socket \<Rightarrow> socket" where
  "resetPingTimeout timeout s = arm PingTimeout timeout (disarm PingTimeout s)"

text \<open>The callback of the timer armed by \<open>schedulePing\<close>; it runs when that timer expires.\<close>

definition pingInterval_expired :: "socket \<Rightarrow> socket" where
  "pingInterval_expired s =
     (case pingIntervalTimer s of
        None \<Rightarrow> s
      | Some d \<Rightarrow>
          resetPingTimeout (pingTimeout (opts s))
            (sendPacket ''ping'' JUndefined OptNone None (s\<lparr>pingIntervalTimer := None\<rparr>)))"

text \<open>The callback of the timer armed by \<open>resetPingTimeout\<close>.\<close>

definition pingTimeout_expired :: "socket \<Rightarrow> socket" where
  "pingTimeout_expired s =
     (case pingTimeoutTimer s of
        None \<Rightarrow> s
      | Some d \<Rightarrow>
          (let s1 = s\<lparr>pingTimeoutTimer := None\<rparr>
           in if readyState s1 = Closed then s1 else onClose ''ping timeout'' s1))"

definition onPacket :: "packet \<Rightarrow> socket \<Rightarrow> socket" where
  "onPacket p s =
     (if readyState s = Open then
        (let s1 = emit (EvPacket p) s;
             s2 = resetPingTimeout (pingInterval (opts s1) + pingTimeout (opts s1)) s1;
             d = (case pdata p of None \<Rightarrow> JUndefined | Some v \<Rightarrow> v)
         in if ptype p = ''pong'' then emit EvHeartbeat (schedulePing s2)
            else if ptype p = ''error'' then onClose ''parse error'' s2
            else if ptype p = ''message'' then emit (EvMessage d) (emit (EvData d) s2)
            else s2)
      else s)"

subsection \<open>Send callbacks\<close>

fun functions_of :: "sentcb \<Rightarrow> nat list" where
  "functions_of (Single (Fn f)) = [f]"
| "functions_of (Single (NonFn v)) = []"
| "functions_of (Group cs) = concat (map (\<lambda>c. case c of Fn f \<Rightarrow> [f] | NonFn v \<Rightarrow> []) cs)"

text \<open>The handler \<open>onDrain\<close> that \<open>setupSendCallback\<close> puts on the transport's drain event.\<close>

definition onDrain :: "socket \<Rightarrow> socket" where
  "onDrain s =
     (case sentCallbackFn s of
        [] \<Rightarrow> s
      | e # rest \<Rightarrow> s\<lparr>sentCallbackFn := rest, invoked := invoked s @ functions_of e\<rparr>)"

text \<open>
  The transport emits \<open>drain\<close>: the listeners registered by \<open>setTransport\<close> run in the
  order of registration, \<open>flush\<close> first, then \<open>onDrain\<close>. The emitter calls every listener
  that was registered when the event started.
\<close>

definition transport_drain :: "socket \<Rightarrow> socket" where
  "transport_drain s = (if attached (transport s) then onDrain (flush s) else s)"

subsection \<open>Closing\<close>

text \<open>\<open>close(discard)\<close>; the JavaScript method returns \<open>undefined\<close> on every path.\<close>

definition close :: "bool \<Rightarrow> socket \<Rightarrow> socket" where
  "close d s =
     (if readyState s \<noteq> Open then s
      else (let s1 = s\<lparr>readyState := Closing\<rparr>
            in if writeBuffer s1 \<noteq> [] then s1\<lparr>closeOnDrain := closeOnDrain s1 @ [d]\<rparr>
               else closeTransport d s1))"

subsection \<open>Upgrade\<close>

definition maybeUpgrade :: "transport \<Rightarrow> socket \<Rightarrow> socket" where
  "maybeUpgrade t s =
     (arm UpgradeTimeout (upgradeTimeout (opts s)) (s\<lparr>upgrading := True\<rparr>))\<lparr>candidate := Some t\<rparr>"

definition is_probe :: "packet \<Rightarrow> bool" where
  "is_probe p \<longleftrightarrow> ptype p = ''ping'' \<and> pdata p = Some (JStr ''probe'')"

text \<open>
  The commit branch of the local \<open>onPacket\<close> of \<open>maybeUpgrade\<close>, for candidate \<open>t\<close>,
  in three parts. First the swap: \<open>cleanup\<close>, \<open>discard\<close> on the old transport,
  \<open>upgraded = true\<close>, \<open>clearTransport\<close>, \<open>setTransport\<close>, the upgrade event and
  \<open>schedulePing\<close>.
\<close>

definition upgrade_swap :: "transport \<Rightarrow> socket \<Rightarrow> socket" where
  "upgrade_swap t s =
     (let s1 = cleanup s;
          s2 = s1\<lparr>transport := discard (transport s1)\<rparr>;
          s3 = s2\<lparr>upgraded := True\<rparr>;
          s4 = clearTransport s3;
          s5 = setTransport t s4;
          s6 = emit (EvUpgrade (tid t)) s5
      in schedulePing s6)"

text \<open>
  Last the test \<open>if (self.readyState === "closing")\<close>: the new transport, by now the
  session's transport, is closed with the forced-close callback.
\<close>

definition upgrade_finish :: "socket \<Rightarrow> socket" where
  "upgrade_finish s =
     (if readyState s = Closing then
        (let r = transport_close (transport s) CbForcedClose;
             s9 = s\<lparr>transport := fst r\<rparr>
         in if snd r then onClose ''forced close'' s9 else s9)
      else s)"

text \<open>The whole branch, with \<open>flush\<close> between the two.\<close>

definition upgrade_commit :: "transport \<Rightarrow> socket \<Rightarrow> socket" where
  "upgrade_commit t s = upgrade_finish (flush (upgrade_swap t s))"

text \<open>
  The local \<open>onPacket\<close> of \<open>maybeUpgrade\<close>: a packet arrives on the candidate transport.
\<close>

definition upgrade_onPacket :: "packet \<Rightarrow> socket \<Rightarrow> socket" where
  "upgrade_onPacket p s =
     (case candidate s of
        None \<Rightarrow> s
      | Some t \<Rightarrow>
          if is_probe p then
            arm CheckInterval 100
              (disarm CheckInterval
                (emit (EvUpgrading (tid t))
                  (s\<lparr>candidate := Some (transport_send t [pong_probe])\<rparr>)))
          else if ptype p = ''upgrade'' \<and> readyState s \<noteq> Closed then upgrade_commit t s
          else (let s1 = cleanup s
                in s1\<lparr>retired := retired s1 @ [fst (transport_close t CbNoop)]\<rparr>))"

text \<open>The local \<open>check\<close>, called by the interval timer every 100 ms while it is armed.\<close>

definition check :: "socket \<Rightarrow> socket" where
  "check s =
     (case checkIntervalTimer s of
        None \<Rightarrow> s
      | Some d \<Rightarrow>
          if kind (transport s) = Polling \<and> writable (transport s)
          then s\<lparr>transport := transport_send (transport s) [noop_packet]\<rparr>
          else s)"

text \<open>The callback of the upgrade timeout.\<close>

definition upgradeTimeout_expired :: "socket \<Rightarrow> socket" where
  "upgradeTimeout_expired s =
     (case upgradeTimeoutTimer s of
        None \<Rightarrow> s
      | Some d \<Rightarrow>
          (case candidate s of
             None \<Rightarrow> s
           | Some t \<Rightarrow>
               (let s1 = cleanup (s\<lparr>upgradeTimeoutTimer := None\<rparr>)
                in s1\<lparr>retired := retired s1 @
                      [if t_readyState t = TOpen then fst (transport_close t CbNoop) else t]\<rparr>)))"

section \<open>JSON.stringify\<close>

text \<open>
  The values the engine serialises: the handshake object and the error body. Strings are
  quoted as \<open>JSON.stringify\<close> quotes them (the quote, the backslash and the control
  characters below 0x20 are escaped).
\<close>

datatype json = JsNull | JsBool bool | JsNum int | JsStr string | JsArr "json list"
  | JsObj "(string \<times> json) list"

fun show_nat :: "nat \<Rightarrow> string" where
  "show_nat n =
     (if n < 10 then [''0123456789'' ! n]
      else show_nat (n div 10) @ [''0123456789'' ! (n mod 10)])"

declare show_nat.simps [simp del]

definition show_int :: "int \<Rightarrow> string" where
  "show_int i = (if i < 0 then CHR ''-'' # show_nat (nat (- i)) else show_nat (nat i))"

definition json_escape :: "char \<Rightarrow> string" where
  "json_escape c =
     (let n = (of_char c :: nat) in
      if n = 0x22 then [CHR 0x5C, CHR 0x22]
      else if n = 0x5C then [CHR 0x5C, CHR 0x5C]
      else if n = 8 then [CHR 0x5C, CHR ''b'']
      else if n = 9 then [CHR 0x5C, CHR ''t'']
      else if n = 10 then [CHR 0x5C, CHR ''n'']
      else if n = 12 then [CHR 0x5C, CHR ''f'']
      else if n = 13 then [CHR 0x5C, CHR ''r'']
      else if n < 32 then
        [CHR 0x5C, CHR ''u'', CHR ''0'', CHR ''0'',
         ''0123456789abcdef'' ! (n div 16), ''0123456789abcdef'' ! (n mod 16)]
      else [c])"

definition json_string :: "string \<Rightarrow> string" where
  "json_string s = [CHR 0x22] @ concat (map json_escape s) @ [CHR 0x22]"

fun join :: "string \<Rightarrow> string list \<Rightarrow> string" where
  "join sep [] = []"
| "join sep [x] = x"
| "join sep (x # y # ys) = x @ sep @ join sep (y # ys)"

fun stringify :: "json \<Rightarrow> string" where
  "stringify JsNull = ''null''"
| "stringify (JsBool b) = (if b then ''true'' else ''false'')"
| "stringify (JsNum n) = show_int n"
| "stringify (JsStr s) = json_string s"
| "stringify (JsArr xs) = ''['' @ join '','' (map stringify xs) @ '']''"
| "stringify (JsObj kvs) =
     ''{'' @ join '','' (map (\<lambda>(k, v). json_string k @ '':'' @ stringify v) kvs) @ ''}''"

text \<open>The JSON form of a value; a Buffer serialises as \<open>{type: "Buffer", data: [...]}\<close>.\<close>

fun json_of :: "jsval \<Rightarrow> json" where
  "json_of JUndefined = JsNull"
| "json_of JNull = JsNull"
| "json_of (JBool b) = JsBool b"
| "json_of (JNum n) = JsNum n"
| "json_of (JStr s) = JsStr s"
| "json_of (JBuf bs) =
     JsObj [(''type'', JsStr ''Buffer''), (''data'', JsArr (map (\<lambda>b. JsNum (int b)) bs))]"

text \<open>An object literal under \<open>JSON.stringify\<close>: properties whose value is undefined are left out.\<close>

definition stringify_object :: "(string \<times> jsval) list \<Rightarrow> string" where
  "stringify_object kvs =
     stringify (JsObj (map (\<lambda>(k, v). (k, json_of v)) (filter (\<lambda>(k, v). v \<noteq> JUndefined) kvs)))"

section \<open>Opening a session\<close>

text \<open>The upgrade map of lib/transports/index.js: \<open>transports[name].upgradesTo || []\<close>.\<close>

fun upgradesTo :: "tkind \<Rightarrow> string list" where
  "upgradesTo Polling = [''websocket'']"
| "upgradesTo Websocket = []"

text \<open>\<open>Server.upgrades\<close>.\<close>

definition upgrades :: "server_opts \<Rightarrow> tkind \<Rightarrow> string list" where
  "upgrades ops k = (if \<not> allowUpgrades ops then [] else upgradesTo k)"

definition getAvailableUpgrades :: "socket \<Rightarrow> string list" where
  "getAvailableUpgrades s =
     filter (\<lambda>upg. upg \<in> set (transports (opts s))) (upgrades (opts s) (kind (transport s)))"

definition handshake_data :: "socket \<Rightarrow> string" where
  "handshake_data s =
     stringify (JsObj [(''sid'', JsStr (sid s)),
                       (''upgrades'', JsArr (map JsStr (getAvailableUpgrades s))),
                       (''pingInterval'', JsNum (pingInterval (opts s))),
                       (''pingTimeout'', JsNum (pingTimeout (opts s)))])"

definition onOpen :: "socket \<Rightarrow> socket" where
  "onOpen s =
     (let s1 = s\<lparr>readyState := Open\<rparr>;
          s2 = s1\<lparr>transport := (transport s1)\<lparr>tsid := Some (sid s1)\<rparr>\<rparr>;
          s3 = sendPacket ''open'' (JStr (handshake_data s2)) OptNone None s2;
          s4 = (if truthy (initialPacket (opts s3))
                then sendPacket ''message'' (initialPacket (opts s3)) OptNone None s3
                else s3)
      in schedulePing (emit EvOpen s4))"

text \<open>The fields the constructor sets before it calls \<open>onOpen\<close>, \<open>setTransport\<close> included.\<close>

definition fresh_socket :: "string \<Rightarrow> server_opts \<Rightarrow> transport \<Rightarrow> socket" where
  "fresh_socket ident ops t =
     \<lparr>sid = ident, opts = ops, readyState = Opening, upgrading = False, upgraded = False,
      writeBuffer = [], packetsFn = [], sentCallbackFn = [],
      transport = t\<lparr>attached := True\<rparr>, candidate = None, retired = [],
      pingIntervalTimer = None, pingTimeoutTimer = None,
      upgradeTimeoutTimer = None, checkIntervalTimer = None, timerOps = [],
      closeOnDrain = [], wbClearPending = False, emitted = [], invoked = []\<rparr>"

text \<open>The constructor.\<close>

definition new_socket :: "string \<Rightarrow> server_opts \<Rightarrow> transport \<Rightarrow> socket" where
  "new_socket ident ops t = onOpen (fresh_socket ident ops t)"

text \<open>The state the WebSocket constructor leaves (lib/transports/websocket.js).\<close>

definition websocket_transport :: "nat \<Rightarrow> transport" where
  "websocket_transport n =
     \<lparr>tid = n, kind = Websocket, t_readyState = TOpen, discarded = False, writable = True,
      tsid = None, attached = False, errorSilenced = False, sentBatches = [],
      pollingClosesNow = False, pendingClose = []\<rparr>"

text \<open>
  Modelled from the spec: a polling transport (polling.js is absent) in the open state,
  with the given \<open>writable\<close> flag (true iff a GET is parked, section 4.2) and the given
  behaviour of its \<open>doClose\<close>.
\<close>

definition polling_transport :: "nat \<Rightarrow> bool \<Rightarrow> bool \<Rightarrow> transport" where
  "polling_transport n w c =
     \<lparr>tid = n, kind = Polling, t_readyState = TOpen, discarded = False, writable = w,
      tsid = None, attached = False, errorSilenced = False, sentBatches = [],
      pollingClosesNow = c, pendingClose = []\<rparr>"

text \<open>The defaults of the Server constructor that the session reads.\<close>

definition default_opts :: server_opts where
  "default_opts =
     \<lparr>pingTimeout = 5000, pingInterval = 25000, upgradeTimeout = 10000,
      transports = [''polling'', ''websocket''], allowUpgrades = True,
      initialPacket = JUndefined\<rparr>"

text \<open>
  Every packet the session has handed to its current transport, followed by the packets
  still buffered.
\<close>

definition outgoing :: "socket \<Rightarrow> packet list" where
  "outgoing s = concat (sentBatches (transport s)) @ writeBuffer s"

section \<open>The server\<close>

datatype header = HAbsent | HNull | HVal string

record request =
  q_transport :: "string option"
  q_sid :: "string option"
  http_method :: string
  origin :: header

definition UNKNOWN_TRANSPORT :: int where "UNKNOWN_TRANSPORT = 0"
definition UNKNOWN_SID :: int where "UNKNOWN_SID = 1"
definition BAD_HANDSHAKE_METHOD :: int where "BAD_HANDSHAKE_METHOD = 2"
definition BAD_REQUEST :: int where "BAD_REQUEST = 3"
definition FORBIDDEN :: int where "FORBIDDEN = 4"

text \<open>\<open>Server.errorMessages\<close>, keyed by property name.\<close>

definition errorMessages :: "(string \<times> string) list" where
  "errorMessages =
     [(''0'', ''Transport unknown''), (''1'', ''Session ID unknown''),
      (''2'', ''Bad handshake method''), (''3'', ''Bad request''), (''4'', ''Forbidden'')]"

text \<open>
  The table \<open>validHdrChars\<close>, 256 entries: 0 for the codes 0 to 31 except 9 (HT) and for
  127 (DEL), 1 for every other code up to 255.
\<close>

definition validHdrChars :: "nat list" where
  "validHdrChars =
     replicate 9 0 @ [1] @ replicate 6 0 @ replicate 16 0 @
     replicate 95 1 @ [0] @
     replicate 128 1"

text \<open>
  \<open>validHdrChars[val.charCodeAt(i)]\<close> as a condition: an index outside the table reads
  \<open>undefined\<close>, which is falsy.
\<close>

definition validHdrChar :: "char \<Rightarrow> bool" where
  "validHdrChar c =
     (let n = (of_char c :: nat)
      in if n < length validHdrChars then validHdrChars ! n \<noteq> 0 else False)"

fun header_string :: "header \<Rightarrow> string" where
  "header_string HAbsent = ''undefined''"
| "header_string HNull = ''null''"
| "header_string (HVal v) = v"

text \<open>The loop of \<open>checkInvalidHeaderChar\<close> from index 4 on.\<close>

fun invalid_from :: "string \<Rightarrow> bool" where
  "invalid_from [] = False"
| "invalid_from (c # cs) = (if \<not> validHdrChar c then True else invalid_from cs)"

definition checkInvalidHeaderChar :: "header \<Rightarrow> bool" where
  "checkInvalidHeaderChar h =
     (let val = header_string h in
      if length val < 1 then False
      else if \<not> validHdrChar (val ! 0) then True
      else if length val < 2 then False
      else if \<not> validHdrChar (val ! 1) then True
      else if length val < 3 then False
      else if \<not> validHdrChar (val ! 2) then True
      else if length val < 4 then False
      else if \<not> validHdrChar (val ! 3) then True
      else invalid_from (drop 4 val))"

text \<open>
  The server: the options the model reads, \<open>opts.allowRequest\<close> (reduced to the pair it
  hands to its callback), the client table and its counter. \<open>detached\<close> lists, with
  their ids, the sessions that are alive with their once-close handler registered but are
  not the table's entry for their id any more (a later handshake stored another session
  under the same id, or another session's handler deleted the entry).
\<close>

record server =
  sopts :: server_opts
  allowRequest :: "(request \<Rightarrow> jsval \<times> bool) option"
  clients :: "string \<rightharpoonup> socket"
  clientsCount :: int
  detached :: "(string \<times> socket) list"

definition sid_given :: "request \<Rightarrow> bool" where
  "sid_given req = (case q_sid req of None \<Rightarrow> False | Some v \<Rightarrow> v \<noteq> [])"

text \<open>
  \<open>verify(req, upgrade, fn)\<close>: the result is the request as the function leaves it and
  the two arguments given to \<open>fn\<close>.
\<close>

definition verify :: "server \<Rightarrow> request \<Rightarrow> bool \<Rightarrow> request \<times> jsval \<times> bool" where
  "verify srv req upgrade =
     (if (case q_transport req of None \<Rightarrow> True | Some t \<Rightarrow> t \<notin> set (transports (sopts srv)))
      then (req, JNum UNKNOWN_TRANSPORT, False)
      else if checkInvalidHeaderChar (origin req)
      then (req\<lparr>origin := HNull\<rparr>, JNum BAD_REQUEST, False)
      else if sid_given req then
        (case clients srv (the (q_sid req)) of
           None \<Rightarrow> (req, JNum UNKNOWN_SID, False)
         | Some client \<Rightarrow>
             if \<not> upgrade \<and> Some (name_of (kind (transport client))) \<noteq> q_transport req
             then (req, JNum BAD_REQUEST, False)
             else (req, JNull, True))
      else if http_method req \<noteq> ''GET'' then (req, JNum BAD_HANDSHAKE_METHOD, False)
      else (case allowRequest srv of
              None \<Rightarrow> (req, JNull, True)
            | Some f \<Rightarrow> (req, f req)))"

record response =
  status :: nat
  headers :: "(string \<times> string) list"
  body :: string

datatype send_result = TypeError | NotWritten | Written response

text \<open>The property name a value turns into when used as a key.\<close>

fun property_key :: "jsval \<Rightarrow> string" where
  "property_key JUndefined = ''undefined''"
| "property_key JNull = ''null''"
| "property_key (JBool b) = (if b then ''true'' else ''false'')"
| "property_key (JNum n) = show_int n"
| "property_key (JStr s) = s"
| "property_key (JBuf bs) = map char_of bs"

text \<open>
  \<open>sendErrorMessage(req, res, code)\<close>; the flag says whether \<open>res\<close> is defined.
\<close>

definition sendErrorMessage :: "request \<Rightarrow> bool \<Rightarrow> jsval \<Rightarrow> send_result" where
  "sendErrorMessage req res code =
     (let headers0 = [(''Content-Type'', ''application/json'')];
          isForbidden = (map_of errorMessages (property_key code) = None)
      in if isForbidden then
           (if res then
              Written \<lparr>status = 403, headers = headers0,
                       body = stringify_object
                                [(''code'', JNum FORBIDDEN),
                                 (''message'', if truthy code then code
                                               else JStr (the (map_of errorMessages
                                                      (property_key (JNum FORBIDDEN)))))]\<rparr>
            else TypeError)
         else
           (let headers1 =
                  (case origin req of
                     HVal v \<Rightarrow> if v \<noteq> [] then
                                 headers0 @ [(''Access-Control-Allow-Credentials'', ''true''),
                                             (''Access-Control-Allow-Origin'', v)]
                               else headers0 @ [(''Access-Control-Allow-Origin'', ''*'')]
                   | _ \<Rightarrow> headers0 @ [(''Access-Control-Allow-Origin'', ''*'')])
            in if res then
                 Written \<lparr>status = 400, headers = headers1,
                          body = stringify_object
                                   [(''code'', code),
                                    (''message'', JStr (the (map_of errorMessages
                                                              (property_key code))))]\<rparr>
               else NotWritten))"

datatype request_outcome = Rejected send_result | ToSession string | ToHandshake string

text \<open>
  \<open>handleRequest\<close> without the CORS middleware: after \<open>verify\<close> the request is answered
  with an error, handed to the session's transport, or handshaken.
\<close>

definition handleRequest :: "server \<Rightarrow> request \<Rightarrow> bool \<Rightarrow> request_outcome" where
  "handleRequest srv req res =
     (case verify srv req False of
        (req', err, success) \<Rightarrow>
          if \<not> success then Rejected (sendErrorMessage req' res err)
          else if sid_given req' then ToSession (the (q_sid req'))
          else ToHandshake (the (q_transport req')))"

datatype handshake_outcome = HandshakeError send_result | Connected string

text \<open>
  \<open>handshake(transportName, req)\<close>. \<open>gen\<close> is what \<open>generateId\<close> produced and \<open>mk\<close> the
  transport its constructor built; \<open>None\<close> stands for a throw. On success the session is
  constructed, stored under its id, whatever the table held there, and counted, and its
  once-close handler is registered. A session that the assignment replaces stays alive
  outside the table. The cookie header and \<open>transport.onRequest\<close> do not touch the table
  and are left out.
\<close>

definition handshake ::
  "server \<Rightarrow> request \<Rightarrow> bool \<Rightarrow> string option \<Rightarrow> transport option \<Rightarrow> handshake_outcome \<times> server" where
  "handshake srv req res gen mk =
     (case gen of
        None \<Rightarrow> (HandshakeError (sendErrorMessage req res (JNum BAD_REQUEST)), srv)
      | Some ident \<Rightarrow>
          (case mk of
             None \<Rightarrow> (HandshakeError (sendErrorMessage req res (JNum BAD_REQUEST)), srv)
           | Some t \<Rightarrow>
               (let socket = new_socket ident (sopts srv) t
                in (Connected ident,
                    srv\<lparr>clients := (clients srv)(ident \<mapsto> socket),
                        clientsCount := clientsCount srv + 1,
                        detached := detached srv @
                          (case clients srv ident of
                             None \<Rightarrow> []
                           | Some old \<Rightarrow> [(ident, old)])\<rparr>))))"




text \<open>The constructor: an empty table and a counter of zero.\<close>

definition new_server :: "server_opts \<Rightarrow> (request \<Rightarrow> jsval \<times> bool) option \<Rightarrow> server" where
  "new_server ops ar =
     \<lparr>sopts = ops, allowRequest = ar, clients = Map.empty, clientsCount = 0, detached = []\<rparr>"






section \<open>Example sessions\<close>

text \<open>A session as the constructor leaves it, with the default options, on the given transport.\<close>

definition session_on :: "transport \<Rightarrow> socket" where
  "session_on t = new_socket ''ab'' default_opts t"

text \<open>
  A session on a polling transport with no parked GET, after \<open>send("hi", cb)\<close>: the open
  packet and the message wait in \<open>writeBuffer\<close>.
\<close>

definition buffered_session :: socket where
  "buffered_session =
     snd (send (JStr ''hi'') OptNone (Some (Fn 7)) (session_on (polling_transport 1 False False)))"

text \<open>The transport becomes writable again (a poll is parked, or a write has completed).\<close>

definition poll_parked :: "socket \<Rightarrow> socket" where
  "poll_parked s = s\<lparr>transport := (transport s)\<lparr>writable := True\<rparr>\<rparr>"


text \<open>A GET request without an Origin header, with the given transport and sid in its query.\<close>

definition get_request :: "string \<Rightarrow> string option \<Rightarrow> request" where
  "get_request t s = \<lparr>q_transport = Some t, q_sid = s, http_method = ''GET'', origin = HAbsent\<rparr>"

text \<open>A server with the default options after the handshake of one polling client, "a".\<close>

definition one_client_server :: server where
  "one_client_server =
     snd (handshake (new_server default_opts None) (get_request ''polling'' None) True
            (Some ''a'') (Some (polling_transport 1 False False)))"

text \<open>An \<open>allowRequest\<close> function that rejects every request with the given value.\<close>

definition deny_with :: "jsval \<Rightarrow> request \<Rightarrow> jsval \<times> bool" where
  "deny_with code req = (code, False)"



text \<open>No upgrade is in progress: no candidate, no check interval, no upgrade timeout.\<close>

definition upgrade_pre :: "socket \<Rightarrow> bool" where
  "upgrade_pre s \<longleftrightarrow>
     candidate s = None \<and> checkIntervalTimer s = None \<and> upgradeTimeoutTimer s = None"

text \<open>
  What the steps after the swap leave alone: the upgrade flags and timers, the retired
  transports, the identity of the transport, the options; events and timer calls are only
  appended.
\<close>

definition upgrade_frame :: "socket \<Rightarrow> socket \<Rightarrow> bool" where
  "upgrade_frame s s' \<longleftrightarrow>
     upgrade_pre s'
     \<and> upgrading s' = upgrading s \<and> upgraded s' = upgraded s \<and> retired s' = retired s
     \<and> tid (transport s') = tid (transport s) \<and> kind (transport s') = kind (transport s)
     \<and> pollingClosesNow (transport s') = pollingClosesNow (transport s)
     \<and> opts s' = opts s
     \<and> (\<exists>es. emitted s' = emitted s @ es)
     \<and> (\<exists>ops. timerOps s' = timerOps s @ ops)"

text \<open>
  The old transport as the commit leaves it: after \<open>discard\<close> and after \<open>clearTransport\<close>
  has taken the listeners off, silenced its errors and closed it.
\<close>

definition old_retired :: "transport \<Rightarrow> transport" where
  "old_retired t =
     fst (transport_close ((discard t)\<lparr>attached := False, errorSilenced := True\<rparr>) CbNoop)"

text \<open>A polling session with a parked poll, and a websocket candidate to upgrade to.\<close>

definition probing_session :: socket where
  "probing_session =
     maybeUpgrade (websocket_transport 2) (poll_parked (session_on (polling_transport 1 True False)))"

text \<open>The session with two buffered packets, and a websocket candidate to upgrade to.\<close>

definition upgrading_session :: socket where
  "upgrading_session = maybeUpgrade (websocket_transport 2) buffered_session"

text \<open>The same, after the application has called \<open>close\<close>.\<close>

definition closing_upgrading_session :: socket where
  "closing_upgrading_session = close False upgrading_session"

text \<open>Packets a client sends on the candidate.\<close>

definition probe_packet :: packet where
  "probe_packet = \<lparr>ptype = ''ping'', pdata = Some (JStr ''probe''), poptions = None\<rparr>"

definition upgrade_packet :: packet where
  "upgrade_packet = \<lparr>ptype = ''upgrade'', pdata = None, poptions = None\<rparr>"

definition stray_packet :: packet where
  "stray_packet = \<lparr>ptype = ''message'', pdata = Some (JStr ''x''), poptions = None\<rparr>"

section \<open>Unfolding and field lemmas\<close>

lemmas timer_defs = set_timer_def arm_def disarm_def

lemma sentBatches_transport_close [simp]:
  "sentBatches (fst (transport_close t cb)) = sentBatches t"
  by (simp add: transport_close_def Let_def)

lemma upgrade_onError_fields [simp]:
  "writeBuffer (upgrade_onError s) = writeBuffer s"
  "transport (upgrade_onError s) = transport s"
  "packetsFn (upgrade_onError s) = packetsFn s"
  "sentCallbackFn (upgrade_onError s) = sentCallbackFn s"
  "readyState (upgrade_onError s) = readyState s"
  "closeOnDrain (upgrade_onError s) = closeOnDrain s"
  by (simp_all add: upgrade_onError_def cleanup_def timer_defs Let_def split: option.splits)

lemma clearTransport_fields [simp]:
  "writeBuffer (clearTransport s) = writeBuffer s"
  "sentBatches (transport (clearTransport s)) = sentBatches (transport s)"
  "packetsFn (clearTransport s) = packetsFn s"
  "sentCallbackFn (clearTransport s) = sentCallbackFn s"
  "readyState (clearTransport s) = readyState s"
  "closeOnDrain (clearTransport s) = closeOnDrain s"
  by (simp_all add: clearTransport_def timer_defs)

lemma emit_fields [simp]:
  "writeBuffer (emit e s) = writeBuffer s"
  "transport (emit e s) = transport s"
  "packetsFn (emit e s) = packetsFn s"
  "sentCallbackFn (emit e s) = sentCallbackFn s"
  "readyState (emit e s) = readyState s"
  "closeOnDrain (emit e s) = closeOnDrain s"
  "emitted (emit e s) = emitted s @ [e]"
  by (simp_all add: emit_def)

lemma onClose_fields [simp]:
  "writeBuffer (onClose r s) = writeBuffer s"
  "sentBatches (transport (onClose r s)) = sentBatches (transport s)"
  "closeOnDrain (onClose r s) = closeOnDrain s"
  by (simp_all add: onClose_def timer_defs Let_def)

lemma closeTransport_fields [simp]:
  "writeBuffer (closeTransport d s) = writeBuffer s"
  "sentBatches (transport (closeTransport d s)) = sentBatches (transport s)"
  "closeOnDrain (closeTransport d s) = closeOnDrain s"
  by (simp_all add: closeTransport_def discard_def Let_def)

lemma fold_closeTransport_fields [simp]:
  "writeBuffer (fold closeTransport ds s) = writeBuffer s"
  "sentBatches (transport (fold closeTransport ds s)) = sentBatches (transport s)"
  "closeOnDrain (fold closeTransport ds s) = closeOnDrain s"
  by (induction ds arbitrary: s) simp_all

lemma emit_drain_fields [simp]:
  "writeBuffer (emit_drain s) = writeBuffer s"
  "sentBatches (transport (emit_drain s)) = sentBatches (transport s)"
  "closeOnDrain (emit_drain s) = []"
  by (simp_all add: emit_drain_def)

lemma outgoing_flush: "outgoing (flush s) = outgoing s"
  by (simp add: flush_def outgoing_def flush_move_def transport_send_def Let_def)

lemma outgoing_enqueue: "outgoing (enqueue p cb s) = outgoing s @ [p]"
  by (simp add: enqueue_def outgoing_def Let_def split: option.splits)

lemma flush_not_writable: "\<not> writable (transport s) \<Longrightarrow> flush s = s"
  by (simp add: flush_def flush_fires_def)

lemma enqueue_fields [simp]:
  "writeBuffer (enqueue p cb s) = writeBuffer s @ [p]"
  "packetsFn (enqueue p cb s) = packetsFn s @ (case cb of None \<Rightarrow> [] | Some f \<Rightarrow> [f])"
  "transport (enqueue p cb s) = transport s"
  "readyState (enqueue p cb s) = readyState s"
  "emitted (enqueue p cb s) = emitted s @ [EvPacketCreate p]"
  by (simp_all add: enqueue_def Let_def split: option.splits)

lemma ptype_mk_packet [simp]: "ptype (mk_packet ty d c) = ty"
  by (simp add: mk_packet_def Let_def)

text \<open>
  Claim C7, amended. On a session whose readyState is closing or closed, \<open>send\<close> (and
  \<open>sendPacket\<close> with any type) leaves the whole session as it was: buffers, events,
  transport; \<open>send\<close> still returns the session. On a session that is opening or open,
  \<open>send\<close> emits \<open>packetCreate\<close>, appends exactly one packet of type message to
  \<open>writeBuffer\<close>, appends to \<open>packetsFn\<close> the function in the options position when the
  options argument is a function and otherwise the callback argument if it is given, and
  then calls \<open>flush\<close>: the packets handed to the transport followed by the buffered ones
  grow by exactly that packet, and when the transport is not writable the packet and the
  callback are still in the two buffers when \<open>send\<close> returns.
\<close>

theorem send_closed_noop_open_enqueues:
  "(readyState s = Closing \<or> readyState s = Closed \<longrightarrow>
      send d opt cb s = (RetThis, s) \<and> sendPacket ty d opt cb s = s)
   \<and> (readyState s = Opening \<or> readyState s = Open \<longrightarrow>
      (let p = \<lparr>ptype = ''message'',
                pdata = (if truthy d then Some d else None),
                poptions = Some (case opt of OptObj c \<Rightarrow> c \<noteq> JBool False | _ \<Rightarrow> True)\<rparr>;
           fns = (case opt of
                    OptFn f \<Rightarrow> [f]
                  | _ \<Rightarrow> (case cb of None \<Rightarrow> [] | Some f \<Rightarrow> [f]));
           q = s\<lparr>writeBuffer := writeBuffer s @ [p],
                 packetsFn := packetsFn s @ fns,
                 emitted := emitted s @ [EvPacketCreate p]\<rparr>
       in send d opt cb s = (RetThis, flush q)
          \<and> outgoing (snd (send d opt cb s)) = outgoing s @ [p]
          \<and> (\<not> writable (transport s) \<longrightarrow> snd (send d opt cb s) = q)))"
proof (intro conjI impI)
  assume "readyState s = Closing \<or> readyState s = Closed"
  then show "send d opt cb s = (RetThis, s)" "sendPacket ty d opt cb s = s"
    by (auto simp: send_def sendPacket_def)
next
  assume acc: "readyState s = Opening \<or> readyState s = Open"
  let ?p = "\<lparr>ptype = ''message'',
             pdata = (if truthy d then Some d else None),
             poptions = Some (case opt of OptObj c \<Rightarrow> c \<noteq> JBool False | _ \<Rightarrow> True)\<rparr>"
  let ?fns = "case opt of
                OptFn f \<Rightarrow> [f]
              | _ \<Rightarrow> (case cb of None \<Rightarrow> [] | Some f \<Rightarrow> [f])"
  let ?q = "s\<lparr>writeBuffer := writeBuffer s @ [?p],
              packetsFn := packetsFn s @ ?fns,
              emitted := emitted s @ [EvPacketCreate ?p]\<rparr>"
  have mk: "mk_packet ''message'' d (compress_of opt) = ?p"
    by (simp add: mk_packet_def compress_of_def Let_def)
  have en: "enqueue ?p (callback_of opt cb) s = ?q"
    by (cases s) (simp add: enqueue_def callback_of_def emit_def Let_def
                       split: optarg.splits option.splits)
  have sp: "sendPacket ''message'' d opt cb s = flush ?q"
    using acc by (auto simp: sendPacket_def mk en)
  have og: "outgoing ?q = outgoing s @ [?p]"
    by (simp add: outgoing_def)
  have nw: "\<not> writable (transport s) \<Longrightarrow> flush ?q = ?q"
    by (rule flush_not_writable) simp
  show "let p = \<lparr>ptype = ''message'',
                pdata = (if truthy d then Some d else None),
                poptions = Some (case opt of OptObj c \<Rightarrow> c \<noteq> JBool False | _ \<Rightarrow> True)\<rparr>;
           fns = (case opt of
                    OptFn f \<Rightarrow> [f]
                  | _ \<Rightarrow> (case cb of None \<Rightarrow> [] | Some f \<Rightarrow> [f]));
           q = s\<lparr>writeBuffer := writeBuffer s @ [p],
                 packetsFn := packetsFn s @ fns,
                 emitted := emitted s @ [EvPacketCreate p]\<rparr>
       in send d opt cb s = (RetThis, flush q)
          \<and> outgoing (snd (send d opt cb s)) = outgoing s @ [p]
          \<and> (\<not> writable (transport s) \<longrightarrow> snd (send d opt cb s) = q)"
    unfolding Let_def
    using nw by (simp add: send_def sp outgoing_flush og)
qed

lemmas model_defs =
  timer_defs emit_def clearTransport_def setTransport_def cleanup_def upgrade_onError_def
  onClose_def nextTick_def closeTransport_def emit_drain_def flush_fires_def sent_entries_def
  flush_move_def flush_def callback_of_def compress_of_def mk_packet_def enqueue_def
  sendPacket_def send_def schedulePing_def resetPingTimeout_def pingInterval_expired_def
  pingTimeout_expired_def onPacket_def onDrain_def transport_drain_def close_def
  maybeUpgrade_def is_probe_def upgrade_swap_def upgrade_finish_def upgrade_commit_def upgrade_onPacket_def check_def
  upgradeTimeout_expired_def discard_def transport_send_def doClose_sync_def
  transport_close_def pong_probe_def noop_packet_def
  upgrades_def getAvailableUpgrades_def handshake_data_def onOpen_def fresh_socket_def new_socket_def
  websocket_transport_def polling_transport_def default_opts_def outgoing_def
  json_string_def json_escape_def show_int_def stringify_object_def Let_def

lemma show_nat_code [simp]:
  "show_nat (numeral k) =
     (if (numeral k :: nat) < 10 then [''0123456789'' ! numeral k]
      else show_nat (numeral k div 10) @ [''0123456789'' ! (numeral k mod 10)])"
  "show_nat 0 = ''0''" "show_nat (Suc 0) = ''1''"
  by (subst show_nat.simps, simp)+


lemma session_on_polling:
  "readyState (session_on (polling_transport 1 False False)) = Open"
  "\<not> writable (transport (session_on (polling_transport 1 False False)))"
  "packetsFn (session_on (polling_transport 1 False False)) = []"
  by (simp_all add: session_on_def model_defs)

theorem send_closed_noop_open_enqueues_witness:
  "readyState (onClose ''transport close'' (session_on (websocket_transport 1))) = Closed
   \<and> send (JStr ''hi'') OptNone (Some (Fn 7))
        (onClose ''transport close'' (session_on (websocket_transport 1)))
      = (RetThis, onClose ''transport close'' (session_on (websocket_transport 1)))
   \<and> readyState (session_on (polling_transport 1 False False)) = Open
   \<and> \<not> writable (transport (session_on (polling_transport 1 False False)))
   \<and> writeBuffer (snd (send (JStr ''hi'') OptNone (Some (Fn 7))
                          (session_on (polling_transport 1 False False))))
      = writeBuffer (session_on (polling_transport 1 False False))
        @ [\<lparr>ptype = ''message'', pdata = Some (JStr ''hi''), poptions = Some True\<rparr>]
   \<and> packetsFn (snd (send (JStr ''hi'') OptNone (Some (Fn 7))
                          (session_on (polling_transport 1 False False)))) = [Fn 7]
   \<and> packetsFn (snd (send (JStr ''hi'') (OptFn (Fn 8)) None
                          (session_on (polling_transport 1 False False)))) = [Fn 8]"
proof -
  let ?C = "onClose ''transport close'' (session_on (websocket_transport 1))"
  let ?P = "session_on (polling_transport 1 False False)"
  let ?p = "\<lparr>ptype = ''message'', pdata = Some (JStr ''hi''), poptions = Some True\<rparr>"
  have c: "readyState ?C = Closed"
    by (simp add: session_on_def model_defs)
  have a: "send (JStr ''hi'') OptNone (Some (Fn 7)) ?C = (RetThis, ?C)"
    using send_closed_noop_open_enqueues
            [of ?C "JStr ''hi''" OptNone "Some (Fn 7)" "''message''"] c
    by simp
  have b: "snd (send (JStr ''hi'') OptNone (Some (Fn 7)) ?P)
           = ?P\<lparr>writeBuffer := writeBuffer ?P @ [?p],
                 packetsFn := packetsFn ?P @ [Fn 7],
                 emitted := emitted ?P @ [EvPacketCreate ?p]\<rparr>"
    using send_closed_noop_open_enqueues
            [of ?P "JStr ''hi''" OptNone "Some (Fn 7)" "''message''"]
          session_on_polling
    by (simp add: Let_def flush_not_writable)
  have b': "snd (send (JStr ''hi'') (OptFn (Fn 8)) None ?P)
           = ?P\<lparr>writeBuffer := writeBuffer ?P @ [?p],
                 packetsFn := packetsFn ?P @ [Fn 8],
                 emitted := emitted ?P @ [EvPacketCreate ?p]\<rparr>"
    using send_closed_noop_open_enqueues
            [of ?P "JStr ''hi''" "OptFn (Fn 8)" None "''message''"]
          session_on_polling
    by (simp add: Let_def flush_not_writable)
  show ?thesis
    unfolding b b' using a c session_on_polling by simp
qed

text \<open>
  Claim C7 as stated fails for the callback: when the options argument is a function,
  \<open>sendPacket\<close> takes that function as the callback, and a callback argument given
  besides it is not appended to \<open>packetsFn\<close>.
\<close>

theorem send_drops_callback_after_function:
  "readyState (session_on (polling_transport 1 False False)) = Open
   \<and> packetsFn (session_on (polling_transport 1 False False)) = []
   \<and> packetsFn (snd (send (JStr ''hi'') (OptFn (Fn 1)) (Some (Fn 2))
                            (session_on (polling_transport 1 False False)))) = [Fn 1]
   \<and> Fn 2 \<notin> set (packetsFn (snd (send (JStr ''hi'') (OptFn (Fn 1)) (Some (Fn 2))
                                       (session_on (polling_transport 1 False False)))))"
  by (simp add: session_on_def model_defs)

text \<open>
  Claim C10. The packet built by \<open>sendPacket\<close> has a data field exactly when the data
  argument is truthy, and then the field is that argument. The empty string, 0, null and
  undefined all give the packet that no data gives, so \<open>send\<close> with a falsy argument is
  the same call as \<open>send\<close> with \<open>undefined\<close>; on a session that accepts the packet, the
  packet that joins the outgoing sequence is that packet.
\<close>

theorem falsy_data_omitted:
  "pdata (mk_packet ty d c) = (if truthy d then Some d else None)
   \<and> mk_packet ty (JStr []) c = mk_packet ty JUndefined c
   \<and> mk_packet ty (JNum 0) c = mk_packet ty JUndefined c
   \<and> mk_packet ty JNull c = mk_packet ty JUndefined c
   \<and> (\<not> truthy d \<longrightarrow>
        sendPacket ty d opt cb s = sendPacket ty JUndefined opt cb s
        \<and> send d opt cb s = send JUndefined opt cb s)
   \<and> (readyState s \<noteq> Closing \<and> readyState s \<noteq> Closed \<longrightarrow>
        outgoing (sendPacket ty d opt cb s) = outgoing s @ [mk_packet ty d (compress_of opt)])"
  by (simp add: mk_packet_def Let_def sendPacket_def send_def outgoing_flush outgoing_enqueue)

theorem falsy_data_omitted_witness:
  "\<not> truthy (JStr [])
   \<and> send (JStr []) OptNone None (session_on (polling_transport 1 False False))
      = send JUndefined OptNone None (session_on (polling_transport 1 False False))
   \<and> readyState (session_on (polling_transport 1 False False)) \<noteq> Closing
   \<and> readyState (session_on (polling_transport 1 False False)) \<noteq> Closed
   \<and> outgoing (sendPacket ''message'' (JStr []) OptNone None
                 (session_on (polling_transport 1 False False)))
      = outgoing (session_on (polling_transport 1 False False))
        @ [\<lparr>ptype = ''message'', pdata = None, poptions = Some True\<rparr>]
   \<and> outgoing (sendPacket ''message'' (JStr ''x'') OptNone None
                 (session_on (polling_transport 1 False False)))
      = outgoing (session_on (polling_transport 1 False False))
        @ [\<lparr>ptype = ''message'', pdata = Some (JStr ''x''), poptions = Some True\<rparr>]"
proof -
  let ?P = "session_on (polling_transport 1 False False)"
  note T0 = falsy_data_omitted [of "''message''" "JStr []" True OptNone None ?P]
  note T1 = falsy_data_omitted [of "''message''" "JStr ''x''" True OptNone None ?P]
  have a: "send (JStr []) OptNone None ?P = send JUndefined OptNone None ?P"
    using T0 by simp
  have b: "outgoing (sendPacket ''message'' (JStr []) OptNone None ?P)
           = outgoing ?P @ [\<lparr>ptype = ''message'', pdata = None, poptions = Some True\<rparr>]"
    using T0 [THEN conjunct2, THEN conjunct2, THEN conjunct2, THEN conjunct2, THEN conjunct2]
          session_on_polling
    by (simp add: mk_packet_def compress_of_def)
  have c: "outgoing (sendPacket ''message'' (JStr ''x'') OptNone None ?P)
           = outgoing ?P @ [\<lparr>ptype = ''message'', pdata = Some (JStr ''x''), poptions = Some True\<rparr>]"
    using T1 [THEN conjunct2, THEN conjunct2, THEN conjunct2, THEN conjunct2, THEN conjunct2]
          session_on_polling
    by (simp add: mk_packet_def compress_of_def)
  show ?thesis
    using a b c session_on_polling by simp
qed

lemma onClose_packetsFn:
  "packetsFn s = [] \<Longrightarrow> packetsFn (onClose r s) = []"
  by (simp add: onClose_def timer_defs Let_def)

lemma closeTransport_packetsFn:
  "packetsFn s = [] \<Longrightarrow> packetsFn (closeTransport d s) = []"
  by (simp add: closeTransport_def Let_def onClose_packetsFn)

lemma fold_closeTransport_packetsFn:
  "packetsFn s = [] \<Longrightarrow> packetsFn (fold closeTransport ds s) = []"
  by (induction ds arbitrary: s) (simp_all add: closeTransport_packetsFn)

lemma emit_drain_packetsFn:
  "packetsFn s = [] \<Longrightarrow> packetsFn (emit_drain s) = []"
  by (simp add: emit_drain_def fold_closeTransport_packetsFn)

lemma emit_drain_no_listener:
  "closeOnDrain s = [] \<Longrightarrow> sentCallbackFn (emit_drain s) = sentCallbackFn s"
  by (simp add: emit_drain_def)

lemma flush_move_fields [simp]:
  "writeBuffer (flush_move s) = []"
  "packetsFn (flush_move s) = []"
  "closeOnDrain (flush_move s) = closeOnDrain s"
  "readyState (flush_move s) = readyState s"
  "sentBatches (transport (flush_move s)) = sentBatches (transport s) @ [writeBuffer s]"
  "sentCallbackFn (flush_move s) =
     sentCallbackFn s @ sent_entries (kind (transport s)) (packetsFn s)"
  by (simp_all add: flush_move_def transport_send_def Let_def)

lemma transport_close_not_open:
  "t_readyState (fst (transport_close t cb)) \<noteq> TOpen"
  by (cases "t_readyState t") (simp_all add: transport_close_def Let_def)

lemma transport_close_closing:
  "t_readyState t \<noteq> TOpen \<Longrightarrow> transport_close t cb = (t, False)"
  by (cases "t_readyState t") (simp_all add: transport_close_def)

lemma onClose_transport_state:
  "t_readyState (transport s) \<noteq> TOpen \<Longrightarrow> t_readyState (transport (onClose r s)) \<noteq> TOpen"
  by (simp add: onClose_def clearTransport_def timer_defs Let_def transport_close_not_open)

lemma closeTransport_not_open:
  "t_readyState (transport (closeTransport d s)) \<noteq> TOpen"
  by (simp add: closeTransport_def Let_def onClose_transport_state transport_close_not_open)

lemma onClose_readyState:
  "readyState (onClose r s) = Closed"
  by (simp add: onClose_def timer_defs Let_def)

lemma closeTransport_readyState:
  "readyState (closeTransport d s) = readyState s \<or> readyState (closeTransport d s) = Closed"
  by (simp add: closeTransport_def Let_def onClose_readyState)

lemma close_not_open: "readyState (close d s) \<noteq> Open"
proof (cases "readyState s = Open")
  case False
  then show ?thesis by (simp add: close_def)
next
  case True
  have "readyState (closeTransport d (s\<lparr>readyState := Closing\<rparr>)) \<noteq> Open"
    using closeTransport_readyState [of d "s\<lparr>readyState := Closing\<rparr>"] by auto
  with True show ?thesis by (simp add: close_def Let_def)
qed

lemma closeOnDrain_reset: "closeOnDrain s = [] \<Longrightarrow> s\<lparr>closeOnDrain := []\<rparr> = s"
  by (cases s) simp

lemma functions_of_all_functions: "functions_of (Group (map Fn fs)) = fs"
  by (induction fs) simp_all

text \<open>
  Claim C3. \<open>flush\<close> hands packets to the transport exactly when readyState is not
  closed, the transport is writable and \<open>writeBuffer\<close> is not empty; otherwise it changes
  nothing. When it fires, the whole \<open>writeBuffer\<close> goes to \<open>transport.send\<close> as one batch,
  \<open>writeBuffer\<close> and \<open>packetsFn\<close> are empty afterwards, and the callbacks of \<open>packetsFn\<close>
  are appended to \<open>sentCallbackFn\<close>: one entry per callback on a framing transport, one
  grouped entry otherwise. That is the state when \<open>transport.send\<close> has been called; it is
  also the state when \<open>flush\<close> returns unless a graceful \<open>close\<close> was waiting for the
  session's drain event, which \<open>flush\<close> emits last. The drain handler of the transport
  removes the first entry of \<open>sentCallbackFn\<close>, if there is one, and calls its function, or
  every function of a grouped entry in order; on a drain event of the transport it runs
  after \<open>flush\<close>.
\<close>

theorem flush_hands_buffer_and_drain_pops:
  "(sentBatches (transport (flush s)) \<noteq> sentBatches (transport s) \<longleftrightarrow>
      readyState s \<noteq> Closed \<and> writable (transport s) \<and> writeBuffer s \<noteq> [])
   \<and> (\<not> flush_fires s \<longrightarrow> flush s = s)
   \<and> (flush_fires s \<longrightarrow>
        sentBatches (transport (flush s)) = sentBatches (transport s) @ [writeBuffer s]
        \<and> writeBuffer (flush s) = []
        \<and> packetsFn (flush s) = []
        \<and> sentCallbackFn (flush_move s) =
            sentCallbackFn s @
            (if supportsFraming (kind (transport s)) then map Single (packetsFn s)
             else [Group (packetsFn s)])
        \<and> (closeOnDrain s = [] \<longrightarrow> sentCallbackFn (flush s) = sentCallbackFn (flush_move s)))
   \<and> (\<forall>e rest. sentCallbackFn s = e # rest \<longrightarrow>
        sentCallbackFn (onDrain s) = rest \<and> invoked (onDrain s) = invoked s @ functions_of e)
   \<and> (sentCallbackFn s = [] \<longrightarrow> onDrain s = s)
   \<and> functions_of (Single (Fn f)) = [f]
   \<and> functions_of (Group (map Fn fs)) = fs
   \<and> (attached (transport s) \<longrightarrow> transport_drain s = onDrain (flush s))"
proof -
  have iff: "sentBatches (transport (flush s)) \<noteq> sentBatches (transport s) \<longleftrightarrow>
      readyState s \<noteq> Closed \<and> writable (transport s) \<and> writeBuffer s \<noteq> []"
    by (simp add: flush_def flush_fires_def)
  have idle: "\<not> flush_fires s \<longrightarrow> flush s = s"
    by (simp add: flush_def)
  have fires: "flush_fires s \<longrightarrow>
        sentBatches (transport (flush s)) = sentBatches (transport s) @ [writeBuffer s]
        \<and> writeBuffer (flush s) = []
        \<and> packetsFn (flush s) = []
        \<and> sentCallbackFn (flush_move s) =
            sentCallbackFn s @
            (if supportsFraming (kind (transport s)) then map Single (packetsFn s)
             else [Group (packetsFn s)])
        \<and> (closeOnDrain s = [] \<longrightarrow> sentCallbackFn (flush s) = sentCallbackFn (flush_move s))"
    by (simp add: flush_def emit_drain_packetsFn emit_drain_no_listener sent_entries_def)
  have pop: "\<forall>e rest. sentCallbackFn s = e # rest \<longrightarrow>
        sentCallbackFn (onDrain s) = rest \<and> invoked (onDrain s) = invoked s @ functions_of e"
    by (simp add: onDrain_def)
  have none: "sentCallbackFn s = [] \<longrightarrow> onDrain s = s"
    by (simp add: onDrain_def)
  have ev: "attached (transport s) \<longrightarrow> transport_drain s = onDrain (flush s)"
    by (simp add: transport_drain_def)
  show ?thesis
    using iff idle fires pop none ev functions_of_all_functions by simp
qed

text \<open>
  Claim C8. A second \<open>close\<close> changes nothing: after the first one readyState is not open,
  and \<open>close\<close> returns at once on a session that is not open. On an open session with a
  non-empty \<open>writeBuffer\<close>, \<open>close\<close> only sets readyState to closing and registers one
  listener for the session's next drain event, leaving the transport as it is; that drain
  event runs \<open>closeTransport\<close>, after which the transport is no longer open and no listener
  is left. On an open session with an empty \<open>writeBuffer\<close>, \<open>close\<close> runs \<open>closeTransport\<close>
  at once.
\<close>

theorem close_twice_is_close_once:
  "close d2 (close d1 s) = close d1 s
   \<and> (readyState s \<noteq> Open \<longrightarrow> close d1 s = s)
   \<and> (readyState s = Open \<and> writeBuffer s \<noteq> [] \<longrightarrow>
        close d1 s = s\<lparr>readyState := Closing, closeOnDrain := closeOnDrain s @ [d1]\<rparr>
        \<and> transport (close d1 s) = transport s
        \<and> (closeOnDrain s = [] \<longrightarrow>
             emit_drain (close d1 s) =
               emit SrvDrain (closeTransport d1 (emit EvDrain (s\<lparr>readyState := Closing\<rparr>)))
             \<and> t_readyState (transport (emit_drain (close d1 s))) \<noteq> TOpen
             \<and> closeOnDrain (emit_drain (close d1 s)) = []))
   \<and> (readyState s = Open \<and> writeBuffer s = [] \<longrightarrow>
        close d1 s = closeTransport d1 (s\<lparr>readyState := Closing\<rparr>)
        \<and> t_readyState (transport (close d1 s)) \<noteq> TOpen)"
proof -
  have idem: "close d2 (close d1 s) = close d1 s"
    using close_not_open [of d1 s] by (simp add: close_def [of d2])
  have skip: "readyState s \<noteq> Open \<longrightarrow> close d1 s = s"
    by (simp add: close_def)
  have now: "readyState s = Open \<and> writeBuffer s = [] \<longrightarrow>
        close d1 s = closeTransport d1 (s\<lparr>readyState := Closing\<rparr>)
        \<and> t_readyState (transport (close d1 s)) \<noteq> TOpen"
    by (simp add: close_def closeTransport_not_open)
  have wait: "readyState s = Open \<and> writeBuffer s \<noteq> [] \<longrightarrow>
        close d1 s = s\<lparr>readyState := Closing, closeOnDrain := closeOnDrain s @ [d1]\<rparr>
        \<and> transport (close d1 s) = transport s
        \<and> (closeOnDrain s = [] \<longrightarrow>
             emit_drain (close d1 s) =
               emit SrvDrain (closeTransport d1 (emit EvDrain (s\<lparr>readyState := Closing\<rparr>)))
             \<and> t_readyState (transport (emit_drain (close d1 s))) \<noteq> TOpen
             \<and> closeOnDrain (emit_drain (close d1 s)) = [])"
  proof (intro impI conjI)
    assume a: "readyState s = Open \<and> writeBuffer s \<noteq> []"
    then show c: "close d1 s = s\<lparr>readyState := Closing, closeOnDrain := closeOnDrain s @ [d1]\<rparr>"
      by (simp add: close_def)
    then show "transport (close d1 s) = transport s" by simp
    assume e: "closeOnDrain s = []"
    have r: "(emit EvDrain (s\<lparr>readyState := Closing, closeOnDrain := [d1]\<rparr>))\<lparr>closeOnDrain := []\<rparr>
             = emit EvDrain (s\<lparr>readyState := Closing\<rparr>)"
      using e by (cases s) (simp add: emit_def)
    show d: "emit_drain (close d1 s) =
               emit SrvDrain (closeTransport d1 (emit EvDrain (s\<lparr>readyState := Closing\<rparr>)))"
      using e r by (simp add: c emit_drain_def)
    show "t_readyState (transport (emit_drain (close d1 s))) \<noteq> TOpen"
      by (simp add: d closeTransport_not_open)
    show "closeOnDrain (emit_drain (close d1 s)) = []" by simp
  qed
  show ?thesis using idem skip now wait by blast
qed

lemmas example_defs = session_on_def buffered_session_def poll_parked_def

lemma buffered_session_facts:
  "readyState buffered_session = Open"
  "writeBuffer buffered_session \<noteq> []"
  "closeOnDrain buffered_session = []"
  "packetsFn buffered_session = [Fn 7]"
  "sentCallbackFn buffered_session = []"
  "sentBatches (transport buffered_session) = []"
  "kind (transport buffered_session) = Polling"
  "t_readyState (transport buffered_session) = TOpen"
  "invoked buffered_session = []"
  by (simp_all add: example_defs model_defs)

lemma poll_parked_fields [simp]:
  "readyState (poll_parked s) = readyState s"
  "writeBuffer (poll_parked s) = writeBuffer s"
  "packetsFn (poll_parked s) = packetsFn s"
  "sentCallbackFn (poll_parked s) = sentCallbackFn s"
  "closeOnDrain (poll_parked s) = closeOnDrain s"
  "invoked (poll_parked s) = invoked s"
  "writable (transport (poll_parked s))"
  "kind (transport (poll_parked s)) = kind (transport s)"
  "sentBatches (transport (poll_parked s)) = sentBatches (transport s)"
  by (simp_all add: poll_parked_def)

theorem flush_hands_buffer_and_drain_pops_witness:
  "flush_fires (poll_parked buffered_session)
   \<and> sentBatches (transport (flush (poll_parked buffered_session)))
       = [writeBuffer buffered_session]
   \<and> writeBuffer (flush (poll_parked buffered_session)) = []
   \<and> sentCallbackFn (flush (poll_parked buffered_session)) = [Group [Fn 7]]
   \<and> sentCallbackFn (onDrain (flush (poll_parked buffered_session))) = []
   \<and> invoked (onDrain (flush (poll_parked buffered_session))) = [7]"
proof -
  let ?X = "poll_parked buffered_session"
  have f: "flush_fires ?X"
    using buffered_session_facts by (simp add: flush_fires_def)
  note T = flush_hands_buffer_and_drain_pops [of ?X 0 "[]"]
  have a: "sentBatches (transport (flush ?X)) = [writeBuffer buffered_session]"
          "writeBuffer (flush ?X) = []"
    using T f buffered_session_facts by simp_all
  have b: "sentCallbackFn (flush ?X) = [Group [Fn 7]]"
    using T f buffered_session_facts by simp
  have i: "invoked (flush ?X) = []"
    by (simp add: example_defs model_defs)
  note U = flush_hands_buffer_and_drain_pops [of "flush ?X" 0 "[]"]
  have c: "sentCallbackFn (onDrain (flush ?X)) = []"
          "invoked (onDrain (flush ?X)) = [7]"
    using U b i by simp_all
  show ?thesis using f a b c by simp
qed

lemma websocket_session_facts:
  "readyState (session_on (websocket_transport 1)) = Open"
  "writeBuffer (session_on (websocket_transport 1)) = []"
  "t_readyState (transport (session_on (websocket_transport 1))) = TOpen"
  by (simp_all add: example_defs model_defs)

theorem close_twice_is_close_once_witness:
  "readyState buffered_session = Open \<and> writeBuffer buffered_session \<noteq> []
   \<and> closeOnDrain buffered_session = []
   \<and> close True (close False buffered_session) = close False buffered_session
   \<and> readyState (close False buffered_session) = Closing
   \<and> t_readyState (transport (close False buffered_session)) = TOpen
   \<and> t_readyState (transport (emit_drain (close False buffered_session))) \<noteq> TOpen
   \<and> readyState (session_on (websocket_transport 1)) = Open
   \<and> writeBuffer (session_on (websocket_transport 1)) = []
   \<and> t_readyState (transport (session_on (websocket_transport 1))) = TOpen
   \<and> t_readyState (transport (close False (session_on (websocket_transport 1)))) \<noteq> TOpen"
proof -
  note T = close_twice_is_close_once [of True False buffered_session]
  note U = close_twice_is_close_once [of True False "session_on (websocket_transport 1)"]
  have a: "close True (close False buffered_session) = close False buffered_session"
    using T by blast
  have b: "close False buffered_session =
           buffered_session\<lparr>readyState := Closing,
                             closeOnDrain := closeOnDrain buffered_session @ [False]\<rparr>"
    using T buffered_session_facts(1,2) by blast
  have c: "readyState (close False buffered_session) = Closing"
          "t_readyState (transport (close False buffered_session)) = TOpen"
    using buffered_session_facts by (simp_all add: b)
  have d: "t_readyState (transport (emit_drain (close False buffered_session))) \<noteq> TOpen"
    using T buffered_session_facts(1,2,3) by blast
  have e: "t_readyState (transport (close False (session_on (websocket_transport 1)))) \<noteq> TOpen"
    using U websocket_session_facts(1,2) by blast
  show ?thesis
    using a c d e buffered_session_facts websocket_session_facts by simp
qed

lemma arm_fields [simp]:
  "opts (arm T d s) = opts s"
  "readyState (arm T d s) = readyState s"
  "emitted (arm T d s) = emitted s"
  "transport (arm T d s) = transport s"
  "writeBuffer (arm T d s) = writeBuffer s"
  "candidate (arm T d s) = candidate s"
  "retired (arm T d s) = retired s"
  "timerOps (arm T d s) = timerOps s @ [Armed T d]"
  "closeOnDrain (arm T d s) = closeOnDrain s"
  "upgrading (arm T d s) = upgrading s"
  "upgraded (arm T d s) = upgraded s"
  by (cases T; simp add: timer_defs)+

lemma disarm_fields [simp]:
  "opts (disarm T s) = opts s"
  "readyState (disarm T s) = readyState s"
  "emitted (disarm T s) = emitted s"
  "transport (disarm T s) = transport s"
  "writeBuffer (disarm T s) = writeBuffer s"
  "candidate (disarm T s) = candidate s"
  "retired (disarm T s) = retired s"
  "timerOps (disarm T s) = timerOps s @ [Cleared T]"
  "closeOnDrain (disarm T s) = closeOnDrain s"
  "upgrading (disarm T s) = upgrading s"
  "upgraded (disarm T s) = upgraded s"
  by (cases T; simp add: timer_defs)+

lemma arm_timers [simp]:
  "pingIntervalTimer (arm T d s) = (if T = PingInterval then Some d else pingIntervalTimer s)"
  "pingTimeoutTimer (arm T d s) = (if T = PingTimeout then Some d else pingTimeoutTimer s)"
  "upgradeTimeoutTimer (arm T d s) = (if T = UpgradeTimeout then Some d else upgradeTimeoutTimer s)"
  "checkIntervalTimer (arm T d s) = (if T = CheckInterval then Some d else checkIntervalTimer s)"
  by (cases T; simp add: timer_defs)+

lemma disarm_timers [simp]:
  "pingIntervalTimer (disarm T s) = (if T = PingInterval then None else pingIntervalTimer s)"
  "pingTimeoutTimer (disarm T s) = (if T = PingTimeout then None else pingTimeoutTimer s)"
  "upgradeTimeoutTimer (disarm T s) = (if T = UpgradeTimeout then None else upgradeTimeoutTimer s)"
  "checkIntervalTimer (disarm T s) = (if T = CheckInterval then None else checkIntervalTimer s)"
  by (cases T; simp add: timer_defs)+

lemma opts_emit [simp]: "opts (emit e s) = opts s"
  by (simp add: emit_def)

lemma opts_onClose [simp]: "opts (onClose r s) = opts s"
  by (simp add: onClose_def clearTransport_def upgrade_onError_def cleanup_def Let_def
           split: option.splits)

lemma opts_closeTransport [simp]: "opts (closeTransport d s) = opts s"
  by (simp add: closeTransport_def Let_def)

lemma opts_fold_closeTransport [simp]: "opts (fold closeTransport ds s) = opts s"
  by (induction ds arbitrary: s) simp_all

lemma opts_flush [simp]: "opts (flush s) = opts s"
  by (simp add: flush_def emit_drain_def flush_move_def Let_def)

lemma opts_sendPacket [simp]: "opts (sendPacket ty d opt cb s) = opts s"
  by (simp add: sendPacket_def enqueue_def Let_def split: option.splits)

lemma schedulePing_fields [simp]:
  "pingIntervalTimer (schedulePing s) = Some (pingInterval (opts s))"
  "pingTimeoutTimer (schedulePing s) = pingTimeoutTimer s"
  "timerOps (schedulePing s) =
     timerOps s @ [Cleared PingInterval, Armed PingInterval (pingInterval (opts s))]"
  "readyState (schedulePing s) = readyState s"
  "emitted (schedulePing s) = emitted s"
  "transport (schedulePing s) = transport s"
  "writeBuffer (schedulePing s) = writeBuffer s"
  "opts (schedulePing s) = opts s"
  by (simp_all add: schedulePing_def)

lemma resetPingTimeout_fields [simp]:
  "pingTimeoutTimer (resetPingTimeout d s) = Some d"
  "pingIntervalTimer (resetPingTimeout d s) = pingIntervalTimer s"
  "timerOps (resetPingTimeout d s) = timerOps s @ [Cleared PingTimeout, Armed PingTimeout d]"
  "readyState (resetPingTimeout d s) = readyState s"
  "emitted (resetPingTimeout d s) = emitted s"
  "transport (resetPingTimeout d s) = transport s"
  "writeBuffer (resetPingTimeout d s) = writeBuffer s"
  "opts (resetPingTimeout d s) = opts s"
  by (simp_all add: resetPingTimeout_def)





lemma outgoing_schedulePing: "outgoing (schedulePing s) = outgoing s"
  by (simp add: outgoing_def)




lemma flush_quiet:
  "closeOnDrain s = [] \<Longrightarrow> readyState (flush s) = readyState s \<and> closeOnDrain (flush s) = []"
  by (simp add: flush_def emit_drain_def flush_move_def Let_def)


lemma stringify_object_nonempty: "stringify (JsObj kvs) \<noteq> []"
  by simp





lemma invalid_from_iff: "invalid_from cs \<longleftrightarrow> (\<exists>c \<in> set cs. \<not> validHdrChar c)"
  by (induction cs) auto

lemma checkInvalidHeaderChar_iff:
  "checkInvalidHeaderChar h \<longleftrightarrow> (\<exists>c \<in> set (header_string h). \<not> validHdrChar c)"
proof -
  obtain val where v: "header_string h = val" by simp
  show ?thesis
  proof (cases val)
    case Nil
    then show ?thesis by (simp add: checkInvalidHeaderChar_def v)
  next
    case (Cons a r1)
    note c1 = Cons
    show ?thesis
    proof (cases r1)
      case Nil
      then show ?thesis by (simp add: checkInvalidHeaderChar_def v c1)
    next
      case (Cons b r2)
      note c2 = Cons
      show ?thesis
      proof (cases r2)
        case Nil
        then show ?thesis by (auto simp add: checkInvalidHeaderChar_def v c1 c2)
      next
        case (Cons c r3)
        note c3 = Cons
        show ?thesis
        proof (cases r3)
          case Nil
          then show ?thesis by (auto simp add: checkInvalidHeaderChar_def v c1 c2 c3)
        next
          case (Cons d r4)
          then show ?thesis
            by (auto simp add: checkInvalidHeaderChar_def v c1 c2 c3 invalid_from_iff)
        qed
      qed
    qed
  qed
qed

lemma validHdrChars_length: "length validHdrChars = 256"
  by (simp add: validHdrChars_def)

lemma validHdrChars_nth:
  "n < 256 \<Longrightarrow> validHdrChars ! n \<noteq> 0 \<longleftrightarrow> n = 9 \<or> (32 \<le> n \<and> n \<noteq> 127)"
  by (auto simp add: validHdrChars_def nth_append nth_Cons' split: if_splits)

lemma of_char_less_256: "(of_char c :: nat) < 256"
  by (metis of_char_mod_256 mod_less_divisor zero_less_numeral)

lemma validHdrChar_iff:
  "validHdrChar c \<longleftrightarrow> (of_char c :: nat) = 9 \<or> (32 \<le> (of_char c :: nat) \<and> (of_char c :: nat) \<noteq> 127)"
  using validHdrChars_nth [OF of_char_less_256 [of c]] of_char_less_256 [of c]
  by (simp add: validHdrChar_def validHdrChars_length Let_def)

text \<open>
  Claim C4. \<open>verify\<close> applies its rules in order and hands the first failing code to its
  callback: a transport query value that is not in \<open>opts.transports\<close> gives
  UNKNOWN_TRANSPORT (0); otherwise an Origin header with an invalid character gives
  BAD_REQUEST (3); otherwise, with a sid, a sid that is not in the client table gives
  UNKNOWN_SID (1), and on a request that is not an upgrade a session whose transport name
  differs from the query's transport gives BAD_REQUEST (3); without a sid (absent or
  empty), a method other than GET gives BAD_HANDSHAKE_METHOD (2), and otherwise
  \<open>opts.allowRequest\<close> decides when it is set. When no rule fails the request is
  accepted. A header value is invalid exactly when one of its characters is outside HT,
  0x20 to 0x7E and 0x80 to 0xFF.
\<close>

theorem verify_first_failing_rule:
  "(q_transport req \<notin> Some ` set (transports (sopts srv)) \<longrightarrow>
      snd (verify srv req up) = (JNum UNKNOWN_TRANSPORT, False))
   \<and> (q_transport req \<in> Some ` set (transports (sopts srv)) \<longrightarrow>
        (checkInvalidHeaderChar (origin req) \<longrightarrow>
           snd (verify srv req up) = (JNum BAD_REQUEST, False))
        \<and> (\<not> checkInvalidHeaderChar (origin req) \<longrightarrow>
             (sid_given req \<longrightarrow>
                (clients srv (the (q_sid req)) = None \<longrightarrow>
                   snd (verify srv req up) = (JNum UNKNOWN_SID, False))
                \<and> (\<forall>c. clients srv (the (q_sid req)) = Some c \<longrightarrow>
                     (\<not> up \<and> Some (name_of (kind (transport c))) \<noteq> q_transport req \<longrightarrow>
                        snd (verify srv req up) = (JNum BAD_REQUEST, False))
                     \<and> (up \<or> Some (name_of (kind (transport c))) = q_transport req \<longrightarrow>
                          snd (verify srv req up) = (JNull, True))))
             \<and> (\<not> sid_given req \<longrightarrow>
                  (http_method req \<noteq> ''GET'' \<longrightarrow>
                     snd (verify srv req up) = (JNum BAD_HANDSHAKE_METHOD, False))
                  \<and> (http_method req = ''GET'' \<longrightarrow>
                       (allowRequest srv = None \<longrightarrow> snd (verify srv req up) = (JNull, True))
                       \<and> (\<forall>f. allowRequest srv = Some f \<longrightarrow>
                            snd (verify srv req up) = f req)))))
   \<and> (checkInvalidHeaderChar h \<longleftrightarrow> (\<exists>c \<in> set (header_string h). \<not> validHdrChar c))
   \<and> (validHdrChar ch \<longleftrightarrow>
        (of_char ch :: nat) = 9 \<or> (32 \<le> (of_char ch :: nat) \<and> (of_char ch :: nat) \<noteq> 127))
   \<and> UNKNOWN_TRANSPORT = 0 \<and> UNKNOWN_SID = 1 \<and> BAD_HANDSHAKE_METHOD = 2 \<and> BAD_REQUEST = 3"
proof -
  have t: "(case q_transport req of None \<Rightarrow> True | Some t \<Rightarrow> t \<notin> set (transports (sopts srv)))
           \<longleftrightarrow> q_transport req \<notin> Some ` set (transports (sopts srv))"
    by (auto split: option.splits)
  have v: "(q_transport req \<notin> Some ` set (transports (sopts srv)) \<longrightarrow>
      snd (verify srv req up) = (JNum UNKNOWN_TRANSPORT, False))
   \<and> (q_transport req \<in> Some ` set (transports (sopts srv)) \<longrightarrow>
        (checkInvalidHeaderChar (origin req) \<longrightarrow>
           snd (verify srv req up) = (JNum BAD_REQUEST, False))
        \<and> (\<not> checkInvalidHeaderChar (origin req) \<longrightarrow>
             (sid_given req \<longrightarrow>
                (clients srv (the (q_sid req)) = None \<longrightarrow>
                   snd (verify srv req up) = (JNum UNKNOWN_SID, False))
                \<and> (\<forall>c. clients srv (the (q_sid req)) = Some c \<longrightarrow>
                     (\<not> up \<and> Some (name_of (kind (transport c))) \<noteq> q_transport req \<longrightarrow>
                        snd (verify srv req up) = (JNum BAD_REQUEST, False))
                     \<and> (up \<or> Some (name_of (kind (transport c))) = q_transport req \<longrightarrow>
                          snd (verify srv req up) = (JNull, True))))
             \<and> (\<not> sid_given req \<longrightarrow>
                  (http_method req \<noteq> ''GET'' \<longrightarrow>
                     snd (verify srv req up) = (JNum BAD_HANDSHAKE_METHOD, False))
                  \<and> (http_method req = ''GET'' \<longrightarrow>
                       (allowRequest srv = None \<longrightarrow> snd (verify srv req up) = (JNull, True))
                       \<and> (\<forall>f. allowRequest srv = Some f \<longrightarrow>
                            snd (verify srv req up) = f req)))))"
    unfolding verify_def t by (auto split: option.splits)
  show ?thesis
    using v checkInvalidHeaderChar_iff [of h] validHdrChar_iff [of ch]
    by (simp only: UNKNOWN_TRANSPORT_def UNKNOWN_SID_def BAD_HANDSHAKE_METHOD_def BAD_REQUEST_def
                   simp_thms)
qed

lemma one_client_server_facts:
  "sopts one_client_server = default_opts"
  "allowRequest one_client_server = None"
  "clients one_client_server ''a'' = Some (new_socket ''a'' default_opts (polling_transport 1 False False))"
  "clients one_client_server ''zz'' = None"
  "clientsCount one_client_server = 1"
  by (simp_all add: one_client_server_def handshake_def new_server_def Let_def)

lemma new_socket_kind: "kind (transport (new_socket ''a'' default_opts (polling_transport 1 False False))) = Polling"
  by (simp add: model_defs)

theorem verify_first_failing_rule_witness:
  "snd (verify one_client_server (get_request ''flash'' None) False) = (JNum 0, False)
   \<and> snd (verify one_client_server
             ((get_request ''polling'' None)\<lparr>origin := HVal [CHR 0x07]\<rparr>) False) = (JNum 3, False)
   \<and> snd (verify one_client_server (get_request ''polling'' (Some ''zz'')) False) = (JNum 1, False)
   \<and> snd (verify one_client_server (get_request ''websocket'' (Some ''a'')) False) = (JNum 3, False)
   \<and> snd (verify one_client_server (get_request ''websocket'' (Some ''a'')) True) = (JNull, True)
   \<and> snd (verify one_client_server (get_request ''polling'' (Some ''a'')) False) = (JNull, True)
   \<and> snd (verify one_client_server
             ((get_request ''polling'' None)\<lparr>http_method := ''POST''\<rparr>) False) = (JNum 2, False)
   \<and> snd (verify one_client_server (get_request ''polling'' None) False) = (JNull, True)"
proof -
  note f = one_client_server_facts new_socket_kind
  have tr: "transports default_opts = [''polling'', ''websocket'']"
    by (simp add: default_opts_def)
  have ok: "\<not> checkInvalidHeaderChar HAbsent"
    by (simp add: verify_first_failing_rule [THEN conjunct2, THEN conjunct2]
                  validHdrChar_def validHdrChars_def nth_append)
  have bad: "checkInvalidHeaderChar (HVal [CHR 0x07])"
    by (simp add: checkInvalidHeaderChar_def validHdrChar_def validHdrChars_def nth_append)
  have a: "snd (verify one_client_server (get_request ''flash'' None) False) = (JNum 0, False)"
    using verify_first_failing_rule [of "get_request ''flash'' None" one_client_server False HAbsent "CHR 0x41"]
          f tr
    by (simp add: get_request_def)
  have b: "snd (verify one_client_server
             ((get_request ''polling'' None)\<lparr>origin := HVal [CHR 0x07]\<rparr>) False) = (JNum 3, False)"
    using verify_first_failing_rule
            [of "(get_request ''polling'' None)\<lparr>origin := HVal [CHR 0x07]\<rparr>" one_client_server False HAbsent "CHR 0x41"]
          bad f tr
    by (simp add: get_request_def)
  have c: "snd (verify one_client_server (get_request ''polling'' (Some ''zz'')) False) = (JNum 1, False)"
    using verify_first_failing_rule [of "get_request ''polling'' (Some ''zz'')" one_client_server False HAbsent "CHR 0x41"]
          ok f tr
    by (simp add: get_request_def sid_given_def)
  have d: "snd (verify one_client_server (get_request ''websocket'' (Some ''a'')) False) = (JNum 3, False)"
    using verify_first_failing_rule [of "get_request ''websocket'' (Some ''a'')" one_client_server False HAbsent "CHR 0x41"]
          ok f tr
    by (simp add: get_request_def sid_given_def)
  have e: "snd (verify one_client_server (get_request ''websocket'' (Some ''a'')) True) = (JNull, True)"
    using verify_first_failing_rule [of "get_request ''websocket'' (Some ''a'')" one_client_server True HAbsent "CHR 0x41"]
          ok f tr
    by (simp add: get_request_def sid_given_def)
  have g: "snd (verify one_client_server (get_request ''polling'' (Some ''a'')) False) = (JNull, True)"
    using verify_first_failing_rule [of "get_request ''polling'' (Some ''a'')" one_client_server False HAbsent "CHR 0x41"]
          ok f tr
    by (simp add: get_request_def sid_given_def)
  have h: "snd (verify one_client_server
             ((get_request ''polling'' None)\<lparr>http_method := ''POST''\<rparr>) False) = (JNum 2, False)"
    using verify_first_failing_rule
            [of "(get_request ''polling'' None)\<lparr>http_method := ''POST''\<rparr>" one_client_server False HAbsent "CHR 0x41"]
          ok f tr
    by (simp add: get_request_def sid_given_def)
  have i: "snd (verify one_client_server (get_request ''polling'' None) False) = (JNull, True)"
    using verify_first_failing_rule [of "get_request ''polling'' None" one_client_server False HAbsent "CHR 0x41"]
          ok f tr
    by (simp add: get_request_def sid_given_def)
  show ?thesis using a b c d e g h i by blast
qed

text \<open>
  Claim C5. A rejected HTTP request is answered by \<open>sendErrorMessage\<close> with the value
  \<open>verify\<close> handed over, and the claim wants the FORBIDDEN code answered with status 403.
  Here a handshake that \<open>opts.allowRequest\<close> rejects with \<open>Server.errors.FORBIDDEN\<close> (4) is
  answered with status 400 and the body \<open>{"code":4,"message":"Forbidden"}\<close>: the test
  \<open>isForbidden = !Server.errorMessages.hasOwnProperty(code)\<close> is false for 4, which is
  itself a key of \<open>Server.errorMessages\<close>.
\<close>

theorem forbidden_code_sent_with_400:
  "handleRequest (new_server default_opts (Some (deny_with (JNum FORBIDDEN))))
                 (get_request ''polling'' None) True
   = Rejected (Written
       \<lparr>status = 400,
        headers = [(''Content-Type'', ''application/json''),
                   (''Access-Control-Allow-Origin'', ''*'')],
        body = stringify (JsObj [(''code'', JsNum 4), (''message'', JsStr ''Forbidden'')])\<rparr>)"
proof -
  have "\<not> checkInvalidHeaderChar HAbsent"
    by (simp add: checkInvalidHeaderChar_def validHdrChar_def validHdrChars_def nth_append)
  then show ?thesis
    by (simp add: handleRequest_def verify_def new_server_def get_request_def default_opts_def
                  sid_given_def deny_with_def sendErrorMessage_def FORBIDDEN_def show_int_def
                  errorMessages_def stringify_object_def Let_def)
qed

text \<open>
  The other branch of the same function: a rejection with a value that is no key of
  \<open>Server.errorMessages\<close> goes out with status 403 and the code FORBIDDEN in its body.
\<close>

lemma custom_rejection_sent_with_403:
  "handleRequest (new_server default_opts (Some (deny_with (JStr ''no entry''))))
                 (get_request ''polling'' None) True
   = Rejected (Written
       \<lparr>status = 403,
        headers = [(''Content-Type'', ''application/json'')],
        body = stringify (JsObj [(''code'', JsNum 4), (''message'', JsStr ''no entry'')])\<rparr>)"
proof -
  have "\<not> checkInvalidHeaderChar HAbsent"
    by (simp add: checkInvalidHeaderChar_def validHdrChar_def validHdrChars_def nth_append)
  then show ?thesis
    by (simp add: handleRequest_def verify_def new_server_def get_request_def default_opts_def
                  sid_given_def deny_with_def sendErrorMessage_def FORBIDDEN_def show_int_def
                  errorMessages_def stringify_object_def Let_def)
qed












lemma upgrade_frame_refl: "upgrade_pre s \<Longrightarrow> upgrade_frame s s"
  by (simp add: upgrade_frame_def)

lemma upgrade_frame_trans:
  "upgrade_frame s s' \<Longrightarrow> upgrade_frame s' s'' \<Longrightarrow> upgrade_frame s s''"
  by (auto simp add: upgrade_frame_def)

lemma upgrade_frame_pre: "upgrade_frame s s' \<Longrightarrow> upgrade_pre s'"
  by (simp add: upgrade_frame_def)

lemma transport_close_ident [simp]:
  "tid (fst (transport_close t cb)) = tid t"
  "kind (fst (transport_close t cb)) = kind t"
  "pollingClosesNow (fst (transport_close t cb)) = pollingClosesNow t"
  "discarded (fst (transport_close t cb)) = discarded t"
  "attached (fst (transport_close t cb)) = attached t"
  "writable (fst (transport_close t cb)) = writable t"
  by (simp_all add: transport_close_def Let_def)

lemma onClose_frame: "upgrade_pre s \<Longrightarrow> upgrade_frame s (onClose r s)"
  by (simp add: upgrade_frame_def upgrade_pre_def onClose_def clearTransport_def
                upgrade_onError_def Let_def emit_def)

lemma closeTransport_frame: "upgrade_pre s \<Longrightarrow> upgrade_frame s (closeTransport d s)"
proof -
  assume p: "upgrade_pre s"
  let ?s1 = "if d then s\<lparr>transport := discard (transport s)\<rparr> else s"
  let ?s2 = "?s1\<lparr>transport := fst (transport_close (transport ?s1) CbForcedClose)\<rparr>"
  have f2: "upgrade_frame s ?s2"
    using p by (simp add: upgrade_frame_def upgrade_pre_def discard_def)
  show ?thesis
  proof (cases "snd (transport_close (transport ?s1) CbForcedClose)")
    case True
    then have "closeTransport d s = onClose ''forced close'' ?s2"
      by (simp add: closeTransport_def Let_def)
    with upgrade_frame_trans [OF f2 onClose_frame [OF upgrade_frame_pre [OF f2]]]
    show ?thesis by simp
  next
    case False
    then have "closeTransport d s = ?s2"
      by (simp add: closeTransport_def Let_def)
    with f2 show ?thesis by simp
  qed
qed

lemma fold_closeTransport_frame:
  "upgrade_pre s \<Longrightarrow> upgrade_frame s (fold closeTransport ds s)"
proof (induction ds arbitrary: s)
  case Nil
  then show ?case by (simp add: upgrade_frame_refl)
next
  case (Cons d ds)
  have a: "upgrade_frame s (closeTransport d s)"
    by (rule closeTransport_frame [OF Cons.prems])
  have b: "upgrade_frame (closeTransport d s) (fold closeTransport ds (closeTransport d s))"
    by (rule Cons.IH [OF upgrade_frame_pre [OF a]])
  show ?case using upgrade_frame_trans [OF a b] by simp
qed

lemma emit_drain_frame: "upgrade_pre s \<Longrightarrow> upgrade_frame s (emit_drain s)"
proof -
  assume p: "upgrade_pre s"
  let ?s1 = "(emit EvDrain s)\<lparr>closeOnDrain := []\<rparr>"
  have a: "upgrade_frame s ?s1"
    using p by (simp add: upgrade_frame_def upgrade_pre_def emit_def)
  have b: "upgrade_frame ?s1 (fold closeTransport (closeOnDrain s) ?s1)"
    by (rule fold_closeTransport_frame [OF upgrade_frame_pre [OF a]])
  have c: "upgrade_frame (fold closeTransport (closeOnDrain s) ?s1)
             (emit SrvDrain (fold closeTransport (closeOnDrain s) ?s1))"
    using upgrade_frame_pre [OF b] by (simp add: upgrade_frame_def upgrade_pre_def emit_def)
  show ?thesis
    using upgrade_frame_trans [OF a upgrade_frame_trans [OF b c]]
    by (simp add: emit_drain_def)
qed

lemma flush_frame: "upgrade_pre s \<Longrightarrow> upgrade_frame s (flush s)"
proof (cases "flush_fires s")
  case False
  assume "upgrade_pre s"
  with False show ?thesis by (simp add: flush_def upgrade_frame_refl)
next
  case True
  assume p: "upgrade_pre s"
  have a: "upgrade_frame s (flush_move s)"
    using p by (simp add: upgrade_frame_def upgrade_pre_def flush_move_def Let_def emit_def
                          transport_send_def)
  have b: "upgrade_frame (flush_move s) (emit_drain (flush_move s))"
    by (rule emit_drain_frame [OF upgrade_frame_pre [OF a]])
  show ?thesis using True upgrade_frame_trans [OF a b] by (simp add: flush_def)
qed

lemma old_retired_facts:
  "tid (old_retired t) = tid t"
  "kind (old_retired t) = kind t"
  "discarded (old_retired t)"
  "\<not> attached (old_retired t)"
  "t_readyState (old_retired t) \<noteq> TOpen"
  by (simp_all add: old_retired_def discard_def transport_close_not_open)

lemma upgrade_swap_fields:
  "upgrade_pre (upgrade_swap t s)"
  "upgrading (upgrade_swap t s) = False"
  "upgraded (upgrade_swap t s) = True"
  "retired (upgrade_swap t s) = retired s @ [old_retired (transport s)]"
  "transport (upgrade_swap t s) = t\<lparr>attached := True\<rparr>"
  "emitted (upgrade_swap t s) = emitted s @ [EvUpgrade (tid t)]"
  "timerOps (upgrade_swap t s) =
     timerOps s @ [Cleared CheckInterval, Cleared UpgradeTimeout, Cleared PingTimeout,
                   Cleared PingInterval, Armed PingInterval (pingInterval (opts s))]"
  "writeBuffer (upgrade_swap t s) = writeBuffer s"
  "readyState (upgrade_swap t s) = readyState s"
  "closeOnDrain (upgrade_swap t s) = closeOnDrain s"
  "pingIntervalTimer (upgrade_swap t s) = Some (pingInterval (opts s))"
  "opts (upgrade_swap t s) = opts s"
  by (simp_all add: upgrade_swap_def upgrade_pre_def cleanup_def clearTransport_def
                    setTransport_def emit_def Let_def old_retired_def schedulePing_def
                    timer_defs)

lemma upgrade_finish_frame: "upgrade_pre s \<Longrightarrow> upgrade_frame s (upgrade_finish s)"
proof (cases "readyState s = Closing")
  case False
  assume "upgrade_pre s"
  with False show ?thesis by (simp add: upgrade_finish_def upgrade_frame_refl)
next
  case True
  assume p: "upgrade_pre s"
  let ?s9 = "s\<lparr>transport := fst (transport_close (transport s) CbForcedClose)\<rparr>"
  have f9: "upgrade_frame s ?s9"
    using p by (simp add: upgrade_frame_def upgrade_pre_def)
  show ?thesis
  proof (cases "snd (transport_close (transport s) CbForcedClose)")
    case False
    with True f9 show ?thesis by (simp add: upgrade_finish_def Let_def)
  next
    case c: True
    have "upgrade_finish s = onClose ''forced close'' ?s9"
      using True c by (simp add: upgrade_finish_def Let_def)
    with upgrade_frame_trans [OF f9 onClose_frame [OF upgrade_frame_pre [OF f9]]]
    show ?thesis by simp
  qed
qed

lemma upgrade_commit_frame: "upgrade_frame (upgrade_swap t s) (upgrade_commit t s)"
proof -
  have a: "upgrade_frame (upgrade_swap t s) (flush (upgrade_swap t s))"
    by (rule flush_frame [OF upgrade_swap_fields(1)])
  have b: "upgrade_frame (flush (upgrade_swap t s)) (upgrade_finish (flush (upgrade_swap t s)))"
    by (rule upgrade_finish_frame [OF upgrade_frame_pre [OF a]])
  show ?thesis using upgrade_frame_trans [OF a b] by (simp add: upgrade_commit_def)
qed

lemma upgrade_finish_batches [simp]:
  "sentBatches (transport (upgrade_finish s)) = sentBatches (transport s)"
  "writeBuffer (upgrade_finish s) = writeBuffer s"
  by (simp_all add: upgrade_finish_def Let_def)

lemma upgrade_commit_flushes:
  "sentBatches (transport (upgrade_commit t s)) =
     sentBatches t @
     (if readyState s \<noteq> Closed \<and> writable t \<and> writeBuffer s \<noteq> [] then [writeBuffer s] else [])
   \<and> writeBuffer (upgrade_commit t s) =
     (if readyState s \<noteq> Closed \<and> writable t \<and> writeBuffer s \<noteq> [] then [] else writeBuffer s)"
  by (simp add: upgrade_commit_def flush_def flush_fires_def upgrade_swap_fields)

lemma upgrade_commit_open:
  assumes "readyState s \<noteq> Closing" "closeOnDrain s = []"
  shows "upgrade_commit t s = flush (upgrade_swap t s)"
    and "readyState (upgrade_commit t s) = readyState s"
    and "pingIntervalTimer (upgrade_commit t s) = Some (pingInterval (opts s))"
    and "attached (transport (upgrade_commit t s))"
proof -
  let ?x = "upgrade_swap t s"
  have q: "readyState (flush ?x) = readyState s"
    using flush_quiet [of ?x] assms by (simp add: upgrade_swap_fields)
  show e: "upgrade_commit t s = flush ?x"
    using q assms by (simp add: upgrade_commit_def upgrade_finish_def)
  show "readyState (upgrade_commit t s) = readyState s" by (simp add: e q)
  have m: "pingIntervalTimer (flush_move ?x) = pingIntervalTimer ?x"
          "attached (transport (flush_move ?x)) = attached (transport ?x)"
          "closeOnDrain (flush_move ?x) = []"
    using assms by (simp_all add: flush_move_def Let_def emit_def transport_send_def
                                  upgrade_swap_fields)
  have d: "pingIntervalTimer (emit_drain (flush_move ?x)) = pingIntervalTimer (flush_move ?x)"
          "attached (transport (emit_drain (flush_move ?x))) = attached (transport (flush_move ?x))"
    using m(3) by (simp_all add: emit_drain_def emit_def)
  show "pingIntervalTimer (upgrade_commit t s) = Some (pingInterval (opts s))"
    by (simp add: e flush_def d m upgrade_swap_fields)
  show "attached (transport (upgrade_commit t s))"
    by (simp add: e flush_def d m upgrade_swap_fields)
qed

lemma transport_send_fields [simp]:
  "t_readyState (transport_send t p) = t_readyState t"
  "kind (transport_send t p) = kind t"
  "tid (transport_send t p) = tid t"
  "attached (transport_send t p) = attached t"
  "pollingClosesNow (transport_send t p) = pollingClosesNow t"
  "sentBatches (transport_send t p) = sentBatches t @ [p]"
  by (simp_all add: transport_send_def)

lemma doClose_sync_updates [simp]:
  "doClose_sync (t\<lparr>attached := a\<rparr>) = doClose_sync t"
  "doClose_sync (t\<lparr>writable := w\<rparr>) = doClose_sync t"
  "doClose_sync (t\<lparr>sentBatches := b\<rparr>) = doClose_sync t"
  "doClose_sync (t\<lparr>discarded := x\<rparr>) = doClose_sync t"
  "doClose_sync (transport_send t p) = doClose_sync t"
  "doClose_sync (discard t) = doClose_sync t"
  by (simp_all add: doClose_sync_def transport_send_def discard_def split: tkind.splits)

lemma onClose_emitted:
  "emitted (onClose r s) = emitted s @ (if readyState s \<noteq> Closed then [EvClose r] else [])"
  by (simp add: onClose_def clearTransport_def upgrade_onError_def cleanup_def emit_def Let_def
                timer_defs split: option.splits)

lemma closeTransport_emitted:
  "\<exists>es. emitted (closeTransport d s) = emitted s @ es"
  by (simp add: closeTransport_def Let_def onClose_emitted)

lemma closeTransport_keeps_closed:
  "readyState s = Closed \<Longrightarrow> readyState (closeTransport d s) = Closed"
  using closeTransport_readyState [of d s] by auto

lemma closeTransport_forced:
  assumes "readyState s \<noteq> Closed" "doClose_sync (transport s)" "t_readyState (transport s) = TOpen"
  shows "readyState (closeTransport d s) = Closed
         \<and> EvClose ''forced close'' \<in> set (emitted (closeTransport d s))"
  using assms
  by (auto simp add: closeTransport_def Let_def transport_close_def doClose_sync_def discard_def
                     onClose_readyState onClose_emitted split: tkind.splits)

lemma fold_closeTransport_keeps_forced:
  "readyState s = Closed \<and> EvClose ''forced close'' \<in> set (emitted s) \<Longrightarrow>
   readyState (fold closeTransport ds s) = Closed
   \<and> EvClose ''forced close'' \<in> set (emitted (fold closeTransport ds s))"
proof (induction ds arbitrary: s)
  case Nil
  then show ?case by simp
next
  case (Cons d ds)
  obtain es where e: "emitted (closeTransport d s) = emitted s @ es"
    using closeTransport_emitted by blast
  have "readyState (closeTransport d s) = Closed
        \<and> EvClose ''forced close'' \<in> set (emitted (closeTransport d s))"
    using Cons.prems closeTransport_keeps_closed [of s d] by (simp add: e)
  from Cons.IH [OF this] show ?case by simp
qed

lemma fold_closeTransport_forced:
  assumes "ds \<noteq> []" "readyState s \<noteq> Closed" "doClose_sync (transport s)"
          "t_readyState (transport s) = TOpen"
  shows "readyState (fold closeTransport ds s) = Closed
         \<and> EvClose ''forced close'' \<in> set (emitted (fold closeTransport ds s))"
proof -
  obtain d rest where ds: "ds = d # rest" using assms(1) by (cases ds) auto
  show ?thesis
    unfolding ds
    using fold_closeTransport_keeps_forced [OF closeTransport_forced [OF assms(2,3,4), of d], of rest]
    by simp
qed

lemma fold_closeTransport_not_open:
  "ds \<noteq> [] \<Longrightarrow> t_readyState (transport (fold closeTransport ds s)) \<noteq> TOpen"
proof (induction ds arbitrary: s)
  case Nil
  then show ?case by simp
next
  case (Cons d ds)
  show ?case
  proof (cases "ds = []")
    case True
    then show ?thesis by (simp add: closeTransport_not_open)
  next
    case False
    from Cons.IH [OF this] show ?thesis by simp
  qed
qed

lemma flush_forced:
  assumes "flush_fires s" "closeOnDrain s \<noteq> []" "doClose_sync (transport s)"
          "t_readyState (transport s) = TOpen"
  shows "readyState (flush s) = Closed \<and> EvClose ''forced close'' \<in> set (emitted (flush s))"
proof -
  let ?m = "(emit EvDrain (flush_move s))\<lparr>closeOnDrain := []\<rparr>"
  have c: "readyState ?m \<noteq> Closed" "doClose_sync (transport ?m)"
          "t_readyState (transport ?m) = TOpen"
    using assms
    by (simp_all add: flush_fires_def flush_move_def Let_def emit_def)
  have "closeOnDrain (flush_move s) \<noteq> []" using assms(2) by simp
  from fold_closeTransport_forced [OF this c]
  show ?thesis using assms(1) by (simp add: flush_def emit_drain_def emit_def)
qed

lemma flush_closes_transport:
  "flush_fires s \<Longrightarrow> closeOnDrain s \<noteq> [] \<Longrightarrow> t_readyState (transport (flush s)) \<noteq> TOpen"
  using fold_closeTransport_not_open
          [of "closeOnDrain (flush_move s)" "(emit EvDrain (flush_move s))\<lparr>closeOnDrain := []\<rparr>"]
  by (simp add: flush_def emit_drain_def emit_def)

lemma flush_idle:
  assumes "\<not> (flush_fires s \<and> closeOnDrain s \<noteq> [])"
  shows "readyState (flush s) = readyState s"
    and "t_readyState (transport (flush s)) = t_readyState (transport s)"
    and "doClose_sync (transport (flush s)) = doClose_sync (transport s)"
proof -
  show "readyState (flush s) = readyState s"
       "t_readyState (transport (flush s)) = t_readyState (transport s)"
       "doClose_sync (transport (flush s)) = doClose_sync (transport s)"
    using assms
    by (auto simp add: flush_def emit_drain_def flush_move_def Let_def emit_def)
qed

lemma upgrade_finish_not_open:
  "readyState s = Closing \<or> t_readyState (transport s) \<noteq> TOpen \<Longrightarrow>
   t_readyState (transport (upgrade_finish s)) \<noteq> TOpen"
  by (auto simp add: upgrade_finish_def Let_def transport_close_not_open onClose_transport_state)

lemma upgrade_finish_forced:
  assumes "readyState s = Closing" "doClose_sync (transport s)" "t_readyState (transport s) = TOpen"
  shows "readyState (upgrade_finish s) = Closed
         \<and> EvClose ''forced close'' \<in> set (emitted (upgrade_finish s))"
  using assms
  by (simp add: upgrade_finish_def Let_def transport_close_def onClose_readyState onClose_emitted)

lemma upgrade_commit_closing:
  assumes "readyState s = Closing"
  shows "t_readyState (transport (upgrade_commit t s)) \<noteq> TOpen"
    and "doClose_sync t \<Longrightarrow> t_readyState t = TOpen \<Longrightarrow>
         readyState (upgrade_commit t s) = Closed
         \<and> EvClose ''forced close'' \<in> set (emitted (upgrade_commit t s))"
proof -
  let ?x = "upgrade_swap t s"
  have x: "readyState ?x = Closing" "doClose_sync (transport ?x) = doClose_sync t"
          "t_readyState (transport ?x) = t_readyState t"
    using assms by (simp_all add: upgrade_swap_fields)
  show "t_readyState (transport (upgrade_commit t s)) \<noteq> TOpen"
  proof (cases "flush_fires ?x \<and> closeOnDrain ?x \<noteq> []")
    case True
    then have "t_readyState (transport (flush ?x)) \<noteq> TOpen"
      by (simp add: flush_closes_transport)
    then show ?thesis by (simp add: upgrade_commit_def upgrade_finish_not_open)
  next
    case False
    then have "readyState (flush ?x) = Closing"
      using flush_idle(1) [OF False] x by simp
    then show ?thesis by (simp add: upgrade_commit_def upgrade_finish_not_open)
  qed
  assume sy: "doClose_sync t" and op: "t_readyState t = TOpen"
  show "readyState (upgrade_commit t s) = Closed
         \<and> EvClose ''forced close'' \<in> set (emitted (upgrade_commit t s))"
  proof (cases "flush_fires ?x \<and> closeOnDrain ?x \<noteq> []")
    case True
    then have q: "readyState (flush ?x) = Closed
                  \<and> EvClose ''forced close'' \<in> set (emitted (flush ?x))"
      using flush_forced [of ?x] x sy op by simp
    then have "upgrade_finish (flush ?x) = flush ?x" by (simp add: upgrade_finish_def)
    with q show ?thesis by (simp add: upgrade_commit_def)
  next
    case False
    have "readyState (flush ?x) = Closing" "doClose_sync (transport (flush ?x))"
         "t_readyState (transport (flush ?x)) = TOpen"
      using flush_idle [OF False] x sy op by simp_all
    from upgrade_finish_forced [OF this] show ?thesis by (simp add: upgrade_commit_def)
  qed
qed

lemma doClose_sync_iff: "doClose_sync t \<longleftrightarrow> kind t = Websocket \<or> pollingClosesNow t"
  by (cases "kind t") (simp_all add: doClose_sync_def)

text \<open>
  Claim C1. The session is in \<open>maybeUpgrade\<close> with candidate transport \<open>t\<close>, and a packet
  arrives on \<open>t\<close>. A ping with data "probe": a pong with data "probe" is sent on \<open>t\<close>,
  upgrading(\<open>t\<close>) is emitted, the check interval is armed with 100 ms, the session keeps its
  transport, and each tick of the interval sends a noop packet on the session's transport
  exactly when that transport is polling and writable. An upgrade packet on a session that
  is not closed (the code does not ask for an earlier probe): check interval and upgrade
  timeout are cancelled, the old transport is discarded, detached and closed, upgraded is
  true and upgrading false, \<open>t\<close> is the session's transport, upgrade(\<open>t\<close>) is emitted, the
  ping-interval timer is cleared and armed again, and the buffered packets are flushed to
  \<open>t\<close> if \<open>t\<close> is writable; on a session that is not closing the session stays in its state
  with the heartbeat armed and its listeners on \<open>t\<close>; on a closing session \<open>t\<close> is closed, and
  when \<open>t\<close> was open and its close runs the callback at once (a websocket does) the session
  is closed with reason "forced close". Any other packet: the timers are cancelled, \<open>t\<close> is
  closed and dropped, upgrading is false, and the session keeps its transport and state.
\<close>

theorem upgrade_probe_commit_abort:
  assumes "candidate s = Some t"
  shows
  "(ptype p = ''ping'' \<and> pdata p = Some (JStr ''probe'') \<longrightarrow>
      candidate (upgrade_onPacket p s)
        = Some (transport_send t
                 [\<lparr>ptype = ''pong'', pdata = Some (JStr ''probe''), poptions = None\<rparr>])
      \<and> sentBatches (transport_send t
                     [\<lparr>ptype = ''pong'', pdata = Some (JStr ''probe''), poptions = None\<rparr>])
        = sentBatches t @ [[\<lparr>ptype = ''pong'', pdata = Some (JStr ''probe''), poptions = None\<rparr>]]
      \<and> emitted (upgrade_onPacket p s) = emitted s @ [EvUpgrading (tid t)]
      \<and> checkIntervalTimer (upgrade_onPacket p s) = Some 100
      \<and> transport (upgrade_onPacket p s) = transport s
      \<and> (kind (transport s) = Polling \<and> writable (transport s) \<longrightarrow>
           sentBatches (transport (check (upgrade_onPacket p s)))
             = sentBatches (transport s)
               @ [[\<lparr>ptype = ''noop'', pdata = None, poptions = None\<rparr>]])
      \<and> (\<not> (kind (transport s) = Polling \<and> writable (transport s)) \<longrightarrow>
           check (upgrade_onPacket p s) = upgrade_onPacket p s))
   \<and> (ptype p = ''upgrade'' \<and> readyState s \<noteq> Closed \<longrightarrow>
        checkIntervalTimer (upgrade_onPacket p s) = None
        \<and> upgradeTimeoutTimer (upgrade_onPacket p s) = None
        \<and> candidate (upgrade_onPacket p s) = None
        \<and> upgraded (upgrade_onPacket p s) \<and> \<not> upgrading (upgrade_onPacket p s)
        \<and> tid (transport (upgrade_onPacket p s)) = tid t
        \<and> kind (transport (upgrade_onPacket p s)) = kind t
        \<and> retired (upgrade_onPacket p s) = retired s @ [old_retired (transport s)]
        \<and> tid (old_retired (transport s)) = tid (transport s)
        \<and> discarded (old_retired (transport s))
        \<and> \<not> attached (old_retired (transport s))
        \<and> t_readyState (old_retired (transport s)) \<noteq> TOpen
        \<and> (\<exists>es. emitted (upgrade_onPacket p s) = emitted s @ EvUpgrade (tid t) # es)
        \<and> (\<exists>ops. timerOps (upgrade_onPacket p s) =
                    timerOps s @
                    [Cleared CheckInterval, Cleared UpgradeTimeout, Cleared PingTimeout,
                     Cleared PingInterval, Armed PingInterval (pingInterval (opts s))] @ ops)
        \<and> sentBatches (transport (upgrade_onPacket p s)) =
            sentBatches t @ (if writable t \<and> writeBuffer s \<noteq> [] then [writeBuffer s] else [])
        \<and> writeBuffer (upgrade_onPacket p s) =
            (if writable t \<and> writeBuffer s \<noteq> [] then [] else writeBuffer s)
        \<and> (readyState s \<noteq> Closing \<and> closeOnDrain s = [] \<longrightarrow>
             readyState (upgrade_onPacket p s) = readyState s
             \<and> pingIntervalTimer (upgrade_onPacket p s) = Some (pingInterval (opts s))
             \<and> attached (transport (upgrade_onPacket p s)))
        \<and> (readyState s = Closing \<longrightarrow>
             t_readyState (transport (upgrade_onPacket p s)) \<noteq> TOpen
             \<and> ((kind t = Websocket \<or> pollingClosesNow t) \<and> t_readyState t = TOpen \<longrightarrow>
                  readyState (upgrade_onPacket p s) = Closed
                  \<and> EvClose ''forced close'' \<in> set (emitted (upgrade_onPacket p s)))))
   \<and> (\<not> (ptype p = ''ping'' \<and> pdata p = Some (JStr ''probe'')) \<and> \<not> (ptype p = ''upgrade'' \<and> readyState s \<noteq> Closed) \<longrightarrow>
        transport (upgrade_onPacket p s) = transport s
        \<and> readyState (upgrade_onPacket p s) = readyState s
        \<and> upgraded (upgrade_onPacket p s) = upgraded s
        \<and> \<not> upgrading (upgrade_onPacket p s)
        \<and> candidate (upgrade_onPacket p s) = None
        \<and> checkIntervalTimer (upgrade_onPacket p s) = None
        \<and> upgradeTimeoutTimer (upgrade_onPacket p s) = None
        \<and> retired (upgrade_onPacket p s) = retired s @ [fst (transport_close t CbNoop)]
        \<and> tid (fst (transport_close t CbNoop)) = tid t
        \<and> t_readyState (fst (transport_close t CbNoop)) \<noteq> TOpen)
   \<and> (candidate (maybeUpgrade t' s0) = Some t'
        \<and> upgrading (maybeUpgrade t' s0)
        \<and> upgradeTimeoutTimer (maybeUpgrade t' s0) = Some (upgradeTimeout (opts s0))
        \<and> transport (maybeUpgrade t' s0) = transport s0
        \<and> readyState (maybeUpgrade t' s0) = readyState s0
        \<and> writeBuffer (maybeUpgrade t' s0) = writeBuffer s0)"
proof -
  have mu: "candidate (maybeUpgrade t' s0) = Some t'
        \<and> upgrading (maybeUpgrade t' s0)
        \<and> upgradeTimeoutTimer (maybeUpgrade t' s0) = Some (upgradeTimeout (opts s0))
        \<and> transport (maybeUpgrade t' s0) = transport s0
        \<and> readyState (maybeUpgrade t' s0) = readyState s0
        \<and> writeBuffer (maybeUpgrade t' s0) = writeBuffer s0"
    by (simp add: maybeUpgrade_def timer_defs)
  have probe: "ptype p = ''ping'' \<and> pdata p = Some (JStr ''probe'') \<longrightarrow>
      candidate (upgrade_onPacket p s)
        = Some (transport_send t
                 [\<lparr>ptype = ''pong'', pdata = Some (JStr ''probe''), poptions = None\<rparr>])
      \<and> sentBatches (transport_send t
                     [\<lparr>ptype = ''pong'', pdata = Some (JStr ''probe''), poptions = None\<rparr>])
        = sentBatches t @ [[\<lparr>ptype = ''pong'', pdata = Some (JStr ''probe''), poptions = None\<rparr>]]
      \<and> emitted (upgrade_onPacket p s) = emitted s @ [EvUpgrading (tid t)]
      \<and> checkIntervalTimer (upgrade_onPacket p s) = Some 100
      \<and> transport (upgrade_onPacket p s) = transport s
      \<and> (kind (transport s) = Polling \<and> writable (transport s) \<longrightarrow>
           sentBatches (transport (check (upgrade_onPacket p s)))
             = sentBatches (transport s)
               @ [[\<lparr>ptype = ''noop'', pdata = None, poptions = None\<rparr>]])
      \<and> (\<not> (kind (transport s) = Polling \<and> writable (transport s)) \<longrightarrow>
           check (upgrade_onPacket p s) = upgrade_onPacket p s)"
    using assms
    by (auto simp add: upgrade_onPacket_def check_def emit_def is_probe_def pong_probe_def
                       noop_packet_def)
  have abort: "\<not> (ptype p = ''ping'' \<and> pdata p = Some (JStr ''probe'')) \<and> \<not> (ptype p = ''upgrade'' \<and> readyState s \<noteq> Closed) \<longrightarrow>
        transport (upgrade_onPacket p s) = transport s
        \<and> readyState (upgrade_onPacket p s) = readyState s
        \<and> upgraded (upgrade_onPacket p s) = upgraded s
        \<and> \<not> upgrading (upgrade_onPacket p s)
        \<and> candidate (upgrade_onPacket p s) = None
        \<and> checkIntervalTimer (upgrade_onPacket p s) = None
        \<and> upgradeTimeoutTimer (upgrade_onPacket p s) = None
        \<and> retired (upgrade_onPacket p s) = retired s @ [fst (transport_close t CbNoop)]
        \<and> tid (fst (transport_close t CbNoop)) = tid t
        \<and> t_readyState (fst (transport_close t CbNoop)) \<noteq> TOpen"
    using assms
    by (auto simp add: upgrade_onPacket_def cleanup_def Let_def transport_close_not_open
                       is_probe_def)
  have commit: "ptype p = ''upgrade'' \<and> readyState s \<noteq> Closed \<longrightarrow>
        checkIntervalTimer (upgrade_onPacket p s) = None
        \<and> upgradeTimeoutTimer (upgrade_onPacket p s) = None
        \<and> candidate (upgrade_onPacket p s) = None
        \<and> upgraded (upgrade_onPacket p s) \<and> \<not> upgrading (upgrade_onPacket p s)
        \<and> tid (transport (upgrade_onPacket p s)) = tid t
        \<and> kind (transport (upgrade_onPacket p s)) = kind t
        \<and> retired (upgrade_onPacket p s) = retired s @ [old_retired (transport s)]
        \<and> tid (old_retired (transport s)) = tid (transport s)
        \<and> discarded (old_retired (transport s))
        \<and> \<not> attached (old_retired (transport s))
        \<and> t_readyState (old_retired (transport s)) \<noteq> TOpen
        \<and> (\<exists>es. emitted (upgrade_onPacket p s) = emitted s @ EvUpgrade (tid t) # es)
        \<and> (\<exists>ops. timerOps (upgrade_onPacket p s) =
                    timerOps s @
                    [Cleared CheckInterval, Cleared UpgradeTimeout, Cleared PingTimeout,
                     Cleared PingInterval, Armed PingInterval (pingInterval (opts s))] @ ops)
        \<and> sentBatches (transport (upgrade_onPacket p s)) =
            sentBatches t @ (if writable t \<and> writeBuffer s \<noteq> [] then [writeBuffer s] else [])
        \<and> writeBuffer (upgrade_onPacket p s) =
            (if writable t \<and> writeBuffer s \<noteq> [] then [] else writeBuffer s)
        \<and> (readyState s \<noteq> Closing \<and> closeOnDrain s = [] \<longrightarrow>
             readyState (upgrade_onPacket p s) = readyState s
             \<and> pingIntervalTimer (upgrade_onPacket p s) = Some (pingInterval (opts s))
             \<and> attached (transport (upgrade_onPacket p s)))
        \<and> (readyState s = Closing \<longrightarrow>
             t_readyState (transport (upgrade_onPacket p s)) \<noteq> TOpen
             \<and> ((kind t = Websocket \<or> pollingClosesNow t) \<and> t_readyState t = TOpen \<longrightarrow>
                  readyState (upgrade_onPacket p s) = Closed
                  \<and> EvClose ''forced close'' \<in> set (emitted (upgrade_onPacket p s))))"
  proof (intro impI)
    assume a: "ptype p = ''upgrade'' \<and> readyState s \<noteq> Closed"
    then have np: "\<not> is_probe p" by (simp add: is_probe_def)
    have e: "upgrade_onPacket p s = upgrade_commit t s"
      using assms a np by (simp add: upgrade_onPacket_def)
    note fr = upgrade_commit_frame [of t s, unfolded upgrade_frame_def upgrade_pre_def
                                                    upgrade_swap_fields]
    have ev: "\<exists>es. emitted (upgrade_commit t s) = emitted s @ EvUpgrade (tid t) # es"
      using fr by auto
    have tm: "\<exists>ops. timerOps (upgrade_commit t s) =
                    timerOps s @
                    [Cleared CheckInterval, Cleared UpgradeTimeout, Cleared PingTimeout,
                     Cleared PingInterval, Armed PingInterval (pingInterval (opts s))] @ ops"
      using fr by auto
    have basic: "checkIntervalTimer (upgrade_commit t s) = None
        \<and> upgradeTimeoutTimer (upgrade_commit t s) = None
        \<and> candidate (upgrade_commit t s) = None
        \<and> upgraded (upgrade_commit t s) \<and> \<not> upgrading (upgrade_commit t s)
        \<and> tid (transport (upgrade_commit t s)) = tid t
        \<and> kind (transport (upgrade_commit t s)) = kind t
        \<and> retired (upgrade_commit t s) = retired s @ [old_retired (transport s)]"
      using fr by simp
    have fl: "sentBatches (transport (upgrade_commit t s)) =
            sentBatches t @ (if writable t \<and> writeBuffer s \<noteq> [] then [writeBuffer s] else [])
        \<and> writeBuffer (upgrade_commit t s) =
            (if writable t \<and> writeBuffer s \<noteq> [] then [] else writeBuffer s)"
      using upgrade_commit_flushes [of t s] a by simp
    have op: "readyState s \<noteq> Closing \<and> closeOnDrain s = [] \<longrightarrow>
             readyState (upgrade_commit t s) = readyState s
             \<and> pingIntervalTimer (upgrade_commit t s) = Some (pingInterval (opts s))
             \<and> attached (transport (upgrade_commit t s))"
      using upgrade_commit_open [of s t] by blast
    have cl: "readyState s = Closing \<longrightarrow>
             t_readyState (transport (upgrade_commit t s)) \<noteq> TOpen
             \<and> ((kind t = Websocket \<or> pollingClosesNow t) \<and> t_readyState t = TOpen \<longrightarrow>
                  readyState (upgrade_commit t s) = Closed
                  \<and> EvClose ''forced close'' \<in> set (emitted (upgrade_commit t s)))"
      using upgrade_commit_closing [of s t] doClose_sync_iff [of t] by blast
    show "checkIntervalTimer (upgrade_onPacket p s) = None
        \<and> upgradeTimeoutTimer (upgrade_onPacket p s) = None
        \<and> candidate (upgrade_onPacket p s) = None
        \<and> upgraded (upgrade_onPacket p s) \<and> \<not> upgrading (upgrade_onPacket p s)
        \<and> tid (transport (upgrade_onPacket p s)) = tid t
        \<and> kind (transport (upgrade_onPacket p s)) = kind t
        \<and> retired (upgrade_onPacket p s) = retired s @ [old_retired (transport s)]
        \<and> tid (old_retired (transport s)) = tid (transport s)
        \<and> discarded (old_retired (transport s))
        \<and> \<not> attached (old_retired (transport s))
        \<and> t_readyState (old_retired (transport s)) \<noteq> TOpen
        \<and> (\<exists>es. emitted (upgrade_onPacket p s) = emitted s @ EvUpgrade (tid t) # es)
        \<and> (\<exists>ops. timerOps (upgrade_onPacket p s) =
                    timerOps s @
                    [Cleared CheckInterval, Cleared UpgradeTimeout, Cleared PingTimeout,
                     Cleared PingInterval, Armed PingInterval (pingInterval (opts s))] @ ops)
        \<and> sentBatches (transport (upgrade_onPacket p s)) =
            sentBatches t @ (if writable t \<and> writeBuffer s \<noteq> [] then [writeBuffer s] else [])
        \<and> writeBuffer (upgrade_onPacket p s) =
            (if writable t \<and> writeBuffer s \<noteq> [] then [] else writeBuffer s)
        \<and> (readyState s \<noteq> Closing \<and> closeOnDrain s = [] \<longrightarrow>
             readyState (upgrade_onPacket p s) = readyState s
             \<and> pingIntervalTimer (upgrade_onPacket p s) = Some (pingInterval (opts s))
             \<and> attached (transport (upgrade_onPacket p s)))
        \<and> (readyState s = Closing \<longrightarrow>
             t_readyState (transport (upgrade_onPacket p s)) \<noteq> TOpen
             \<and> ((kind t = Websocket \<or> pollingClosesNow t) \<and> t_readyState t = TOpen \<longrightarrow>
                  readyState (upgrade_onPacket p s) = Closed
                  \<and> EvClose ''forced close'' \<in> set (emitted (upgrade_onPacket p s))))"
      unfolding e
      using basic old_retired_facts [of "transport s"] ev tm fl op cl by blast
  qed
  show ?thesis using probe commit abort mu by blast
qed

lemma probing_session_facts:
  "candidate probing_session = Some (websocket_transport 2)"
  "kind (transport probing_session) = Polling"
  "writable (transport probing_session)"
  by (simp_all add: probing_session_def example_defs model_defs)

lemma upgrading_session_facts:
  "candidate upgrading_session = Some (websocket_transport 2)"
  "readyState upgrading_session = Open"
  "closeOnDrain upgrading_session = []"
  "writeBuffer upgrading_session = writeBuffer buffered_session"
  "writeBuffer buffered_session \<noteq> []"
  "tid (transport upgrading_session) = 1"
  by (simp_all add: upgrading_session_def example_defs model_defs)

lemma closing_upgrading_session_facts:
  "candidate closing_upgrading_session = Some (websocket_transport 2)"
  "readyState closing_upgrading_session = Closing"
  by (simp_all add: closing_upgrading_session_def upgrading_session_def example_defs model_defs)

lemma websocket_transport_facts:
  "tid (websocket_transport 2) = 2"
  "writable (websocket_transport 2)"
  "sentBatches (websocket_transport 2) = []"
  "kind (websocket_transport 2) = Websocket"
  "t_readyState (websocket_transport 2) = TOpen"
  by (simp_all add: websocket_transport_def)

lemma packet_facts:
  "ptype probe_packet = ''ping'' \<and> pdata probe_packet = Some (JStr ''probe'')"
  "ptype upgrade_packet = ''upgrade''"
  "\<not> (ptype stray_packet = ''ping'' \<and> pdata stray_packet = Some (JStr ''probe''))"
  "ptype stray_packet \<noteq> ''upgrade''"
  by (simp_all add: probe_packet_def upgrade_packet_def stray_packet_def)

theorem upgrade_probe_commit_abort_witness:
  "candidate probing_session = Some (websocket_transport 2)
   \<and> emitted (upgrade_onPacket probe_packet probing_session)
       = emitted probing_session @ [EvUpgrading 2]
   \<and> checkIntervalTimer (upgrade_onPacket probe_packet probing_session) = Some 100
   \<and> sentBatches (transport (check (upgrade_onPacket probe_packet probing_session)))
       = sentBatches (transport probing_session)
         @ [[\<lparr>ptype = ''noop'', pdata = None, poptions = None\<rparr>]]
   \<and> candidate upgrading_session = Some (websocket_transport 2)
   \<and> readyState upgrading_session = Open
   \<and> tid (transport (upgrade_onPacket upgrade_packet upgrading_session)) = 2
   \<and> upgraded (upgrade_onPacket upgrade_packet upgrading_session)
   \<and> \<not> upgrading (upgrade_onPacket upgrade_packet upgrading_session)
   \<and> sentBatches (transport (upgrade_onPacket upgrade_packet upgrading_session))
       = [writeBuffer buffered_session]
   \<and> readyState (upgrade_onPacket upgrade_packet upgrading_session) = Open
   \<and> tid (transport (upgrade_onPacket stray_packet upgrading_session)) = 1
   \<and> candidate (upgrade_onPacket stray_packet upgrading_session) = None
   \<and> candidate closing_upgrading_session = Some (websocket_transport 2)
   \<and> readyState closing_upgrading_session = Closing
   \<and> readyState (upgrade_onPacket upgrade_packet closing_upgrading_session) = Closed
   \<and> EvClose ''forced close''
       \<in> set (emitted (upgrade_onPacket upgrade_packet closing_upgrading_session))"
proof -
  note P = upgrade_probe_commit_abort [OF probing_session_facts(1), of probe_packet]
  note C = upgrade_probe_commit_abort [OF upgrading_session_facts(1), of upgrade_packet]
  note A = upgrade_probe_commit_abort [OF upgrading_session_facts(1), of stray_packet]
  note F = upgrade_probe_commit_abort [OF closing_upgrading_session_facts(1), of upgrade_packet]
  have p1: "emitted (upgrade_onPacket probe_packet probing_session)
            = emitted probing_session @ [EvUpgrading (tid (websocket_transport 2))]"
           "checkIntervalTimer (upgrade_onPacket probe_packet probing_session) = Some 100"
           "sentBatches (transport (check (upgrade_onPacket probe_packet probing_session)))
            = sentBatches (transport probing_session)
         @ [[\<lparr>ptype = ''noop'', pdata = None, poptions = None\<rparr>]]"
    using P packet_facts(1) probing_session_facts(2,3) by blast+
  have ns: "readyState upgrading_session \<noteq> Closed" "readyState upgrading_session \<noteq> Closing"
    by (simp_all add: upgrading_session_facts)
  have c1: "tid (transport (upgrade_onPacket upgrade_packet upgrading_session))
            = tid (websocket_transport 2)"
           "upgraded (upgrade_onPacket upgrade_packet upgrading_session)"
           "\<not> upgrading (upgrade_onPacket upgrade_packet upgrading_session)"
           "sentBatches (transport (upgrade_onPacket upgrade_packet upgrading_session)) =
              sentBatches (websocket_transport 2) @
              (if writable (websocket_transport 2) \<and> writeBuffer upgrading_session \<noteq> []
               then [writeBuffer upgrading_session] else [])"
    using C packet_facts(2) ns(1) by blast+
  have c2: "readyState (upgrade_onPacket upgrade_packet upgrading_session)
            = readyState upgrading_session"
    using C packet_facts(2) ns upgrading_session_facts(3) by blast
  have a1: "transport (upgrade_onPacket stray_packet upgrading_session)
            = transport upgrading_session"
           "candidate (upgrade_onPacket stray_packet upgrading_session) = None"
    using A packet_facts(3,4) by blast+
  have f1: "readyState (upgrade_onPacket upgrade_packet closing_upgrading_session) = Closed
            \<and> EvClose ''forced close''
               \<in> set (emitted (upgrade_onPacket upgrade_packet closing_upgrading_session))"
    using F packet_facts(2) closing_upgrading_session_facts(2) websocket_transport_facts(4,5)
    by simp
  show ?thesis
    using p1 c1 c2 a1 f1 probing_session_facts upgrading_session_facts
          closing_upgrading_session_facts websocket_transport_facts
    by simp
qed

end
